theory Spec2Isabelle
  imports Complex_Main "HOL-Library.AList"
begin

text \<open>
  CueAI listens to spoken narration and plays music and sound effects. This theory embeds
  the live cue and playback core of \<open>game.js\<close> (the story aligner, the instant keyword
  cues, the cooldown ledger, music and effect playback, the preloader) and the id
  validation of the backend's \<open>/analyze\<close> endpoint, and proves properties of them.
  The engine runs on one thread; a function that awaits is modelled as one step per call,
  except the preload tasks, whose waits are the steps of an event list, and
  \<open>playSoundEffect\<close>, which is also given as the two steps before and after its wait.
\<close>

section \<open>Strings\<close>

text \<open>
  Transcript text, story tokens and sound ids are JavaScript strings; they are modelled
  as \<open>string\<close> (a list of characters), read as ASCII text. \<open>toLowerCase\<close> maps
  \<open>A\<close>..\<open>Z\<close> to \<open>a\<close>..\<open>z\<close> and leaves every other character alone.
\<close>

definition toLowerChar :: "char \<Rightarrow> char" where
  "toLowerChar c =
     (case map_of (zip ''ABCDEFGHIJKLMNOPQRSTUVWXYZ'' ''abcdefghijklmnopqrstuvwxyz'') c of
        Some d \<Rightarrow> d
      | None \<Rightarrow> c)"

definition toLowerCase :: "string \<Rightarrow> string" where
  "toLowerCase s = map toLowerChar s"

text \<open>The character class \<open>[a-z0-9']\<close> of \<open>normalizeWord\<close> and of the spoken-word split.\<close>

definition isNormChar :: "char \<Rightarrow> bool" where
  "isNormChar c = (c \<in> set ''abcdefghijklmnopqrstuvwxyz0123456789'' \<or> c = CHR 0x27)"

text \<open>The class \<open>\s\<close> on ASCII text: space, tab, line feed, vertical tab, form feed, carriage return.\<close>

definition isSpace :: "char \<Rightarrow> bool" where
  "isSpace c = (c \<in> {CHR 0x20, CHR 0x09, CHR 0x0A, CHR 0x0B, CHR 0x0C, CHR 0x0D})"

text \<open>\<open>s.endsWith(suf)\<close>, and the removal of the last \<open>n\<close> characters.\<close>

definition endsWith :: "string \<Rightarrow> string \<Rightarrow> bool" where
  "endsWith s suf = (length suf \<le> length s \<and> drop (length s - length suf) s = suf)"

definition dropEnd :: "nat \<Rightarrow> string \<Rightarrow> string" where
  "dropEnd n s = take (length s - n) s"

section \<open>Story aligner\<close>

text \<open>\<open>normalizeWord(tok)\<close>: lower-case, then delete every run of characters outside \<open>[a-z0-9']\<close>.\<close>

definition normalizeWord :: "string \<Rightarrow> string" where
  "normalizeWord tok = filter isNormChar (toLowerCase tok)"

subsection \<open>Loose word equality\<close>

text \<open>\<open>base\<close>: \<open>s.replace(/'(s)?$/, '')\<close> removes a trailing \<open>'s\<close>, or else a trailing \<open>'\<close>.\<close>

definition base :: "string \<Rightarrow> string" where
  "base s =
     (if endsWith s [CHR 0x27, CHR ''s''] then dropEnd 2 s
      else if endsWith s [CHR 0x27] then dropEnd 1 s
      else s)"

text \<open>
  \<open>strip\<close>: first \<open>/(ing|ed|ly|er|est)$/\<close>, then \<open>/(es|s)$/\<close>, each replaced by the empty
  string. A regular expression takes the leftmost match, so \<open>es\<close> wins over \<open>s\<close>.
\<close>

definition strip1 :: "string \<Rightarrow> string" where
  "strip1 r =
     (if endsWith r ''ing'' \<or> endsWith r ''est'' then dropEnd 3 r
      else if endsWith r ''ed'' \<or> endsWith r ''ly'' \<or> endsWith r ''er'' then dropEnd 2 r
      else r)"

definition strip2 :: "string \<Rightarrow> string" where
  "strip2 r =
     (if endsWith r ''es'' then dropEnd 2 r
      else if endsWith r ''s'' then dropEnd 1 r
      else r)"

definition strip :: "string \<Rightarrow> string" where
  "strip s = strip2 (strip1 s)"

text \<open>
  The table of irregular plurals. A key that is not in the table reads as \<open>undefined\<close>
  (or as an inherited property of the object, which is never equal to a string), so the
  test \<open>irregular[a] && irregular[a] === b\<close> is a lookup in this list.
\<close>

definition irregular :: "(string \<times> string) list" where
  "irregular =
     [(''wolves'', ''wolf''), (''children'', ''child''), (''men'', ''man''),
      (''women'', ''woman''), (''geese'', ''goose''), (''mice'', ''mouse''),
      (''feet'', ''foot''), (''teeth'', ''tooth'')]"

definition eqLoose :: "string \<Rightarrow> string \<Rightarrow> bool" where
  "eqLoose a b =
     (if a = [] \<or> b = [] then a = b
      else if a = b then True
      else
        let a1 = strip (base a); b1 = strip (base b) in
        if a1 \<noteq> [] \<and> b1 \<noteq> [] \<and> a1 = b1 then True
        else if map_of irregular a = Some b then True
        else if map_of irregular b = Some a then True
        else False)"

subsection \<open>Forward scan and recovery\<close>

text \<open>The two word lists of the scan: \<open>/^(the|and|a|an|to|of|in|on|at|with)$/\<close> and, in recovery,
  the same with \<open>it|is|was\<close> added.\<close>

definition isStopWord :: "string \<Rightarrow> bool" where
  "isStopWord t = (t \<in> set [''the'', ''and'', ''a'', ''an'', ''to'', ''of'', ''in'', ''on'', ''at'', ''with''])"

definition isSmallWord :: "string \<Rightarrow> bool" where
  "isSmallWord t =
     (t \<in> set [''the'', ''and'', ''a'', ''an'', ''to'', ''of'', ''in'', ''on'', ''at'', ''with'',
                ''it'', ''is'', ''was''])"

text \<open>
  The spoken words of a fragment:
  \<open>text.toLowerCase().replace(/[^a-z0-9'\s]+/g, ' ').split(/\s+/).filter(Boolean)\<close>.
  \<open>replaceRuns\<close> turns each maximal run of other characters into one space;
  \<open>splitWords\<close> cuts at runs of white space and keeps the non-empty pieces.
\<close>

function replaceRuns :: "string \<Rightarrow> string" where
  "replaceRuns [] = []"
| "replaceRuns (c # cs) =
     (if isNormChar c \<or> isSpace c then c # replaceRuns cs
      else CHR 0x20 # replaceRuns (dropWhile (\<lambda>d. \<not> (isNormChar d \<or> isSpace d)) cs))"
  by pat_completeness auto
termination
  by (relation "measure length") (auto simp: length_dropWhile_le less_Suc_eq_le)

fun splitWords :: "string \<Rightarrow> string \<Rightarrow> string list" where
  "splitWords acc [] = (if acc = [] then [] else [rev acc])"
| "splitWords acc (c # cs) =
     (if isSpace c then (if acc = [] then [] else [rev acc]) @ splitWords [] cs
      else splitWords (c # acc) cs)"

definition spokenWords :: "string \<Rightarrow> string list" where
  "spokenWords text = splitWords [] (replaceRuns (toLowerCase text))"

text \<open>
  The state of an open narrative. \<open>storyNorm\<close> holds the normalised tokens (a separator
  normalises to the empty string), \<open>storyIndex\<close> is the cursor, \<open>recentSpoken\<close> the sliding
  window of the last 30 spoken words.
\<close>

record story =
  storyActive :: bool
  storyIndex :: nat
  storyNorm :: "string list"
  recentSpoken :: "string list"

text \<open>\<open>while (i < this.storyNorm.length && this.storyNorm[i] === '') i++\<close>\<close>

function skipEmpty :: "string list \<Rightarrow> nat \<Rightarrow> nat" where
  "skipEmpty toks i = (if i < length toks \<and> toks ! i = [] then skipEmpty toks (Suc i) else i)"
  by pat_completeness auto
termination
  by (relation "measure (\<lambda>(toks, i). length toks - i)") auto

declare skipEmpty.simps [simp del]

text \<open>
  The sequential scan, one step per spoken word. The loop state is the position \<open>i\<close>, the
  counter \<open>progressed\<close> and the words handed to \<open>maybeTriggerStorySfx\<close>, in order.
  Running off the end of the story leaves the loop (\<open>break\<close>).
\<close>

fun seqScan :: "string list \<Rightarrow> string list \<Rightarrow> nat \<times> nat \<times> string list \<Rightarrow> nat \<times> nat \<times> string list" where
  "seqScan toks [] s = s"
| "seqScan toks (w # ws) (i, progressed, cues) =
     (let i1 = skipEmpty toks i in
      if i1 \<ge> length toks then (i1, progressed, cues)
      else if eqLoose (toks ! i1) w then seqScan toks ws (Suc i1, Suc progressed, cues @ [w])
      else if isStopWord (toks ! i1) then seqScan toks ws (Suc i1, progressed, cues)
      else seqScan toks ws (i1, progressed, cues))"

text \<open>
  The inner loop of \<open>attemptStoryRecovery\<close> over the window from \<open>startIdx\<close> on and the
  spoken words from \<open>j\<close> on; the result is \<open>matched\<close>.
\<close>

fun runMatch :: "string list \<Rightarrow> string list \<Rightarrow> nat \<Rightarrow> nat" where
  "runMatch [] sp matched = matched"
| "runMatch (t # ts) [] matched = matched"
| "runMatch (t # ts) (w # ws) matched =
     (if t = [] then runMatch ts (w # ws) matched
      else if eqLoose t w then runMatch ts ws (Suc matched)
      else if isSmallWord t then runMatch ts (w # ws) matched
      else matched)"

text \<open>The outer loop: \<open>for (startIdx = 0; startIdx < window.length - minMatch; startIdx++)\<close>.\<close>

function recoveryFrom :: "string list \<Rightarrow> string list \<Rightarrow> nat \<Rightarrow> nat \<Rightarrow> nat option" where
  "recoveryFrom window spoken minMatch startIdx =
     (if startIdx + minMatch < length window then
        (if runMatch (drop startIdx window) spoken 0 \<ge> minMatch then Some startIdx
         else recoveryFrom window spoken minMatch (Suc startIdx))
      else None)"
  by pat_completeness auto
termination
  by (relation "measure (\<lambda>(window, spoken, minMatch, startIdx). length window - startIdx)") auto

declare recoveryFrom.simps [simp del]

definition attemptStoryRecovery :: "story \<Rightarrow> string list \<Rightarrow> nat" where
  "attemptStoryRecovery st spoken =
     (let lookahead = 40;
          minMatch = min 3 (length spoken);
          window = take lookahead (drop (storyIndex st) (storyNorm st))
      in case recoveryFrom window spoken minMatch 0 of
           Some startIdx \<Rightarrow> storyIndex st + startIdx
         | None \<Rightarrow> storyIndex st)"

text \<open>
  \<open>advanceStoryWithTranscript(text)\<close>. The result is the new state and the words for which
  \<open>maybeTriggerStorySfx\<close> was called. Highlighting and prefetching follow a cursor move
  and do not touch the story state.
\<close>

definition advanceStoryWithTranscript :: "string \<Rightarrow> story \<Rightarrow> story \<times> string list" where
  "advanceStoryWithTranscript text st =
     (if \<not> storyActive st \<or> text = [] then (st, [])
      else
        let spoken = spokenWords text in
        if spoken = [] then (st, [])
        else
          let r = recentSpoken st @ spoken;
              st1 = st\<lparr>recentSpoken := (if length r > 30 then drop (length r - 30) r else r)\<rparr>;
              (i, progressed, cues) = seqScan (storyNorm st1) spoken (storyIndex st1, 0, []);
              i2 = (if progressed = 0 \<and> length spoken \<ge> 3 then
                      (let recovered = attemptStoryRecovery st1 spoken in
                       if recovered > storyIndex st1 then recovered else i)
                    else i)
          in if i2 > storyIndex st1 then (st1\<lparr>storyIndex := i2\<rparr>, cues) else (st1, cues))"

text \<open>The states passed through by a run of transcript fragments, the start state first.\<close>

fun storyTrace :: "string list \<Rightarrow> story \<Rightarrow> story list" where
  "storyTrace [] st = [st]"
| "storyTrace (text # texts) st = st # storyTrace texts (fst (advanceStoryWithTranscript text st))"

text \<open>
  Predicates on token lists, used to say what a call may pass over.
  \<open>anyLooseMatch toks ws\<close>: some token of \<open>toks\<close> loosely equals some word of \<open>ws\<close>.
  \<open>passedOnly P toks i j\<close>: the positions from \<open>i\<close> up to, not including, \<open>j\<close> lie inside
  \<open>toks\<close> and hold only tokens with \<open>P\<close>. \<open>skippable\<close>: only separators (empty tokens)
  and stop-words. \<open>passable\<close>: only separators, stop-words and tokens that loosely equal
  a word of \<open>ws\<close>. \<open>unmatchedPrefixWord window ws\<close>: one of the first three words of \<open>ws\<close>
  loosely equals no token of \<open>window\<close>, so that no run of tokens of the window matches
  the three-word prefix of the batch.
\<close>

definition anyLooseMatch :: "string list \<Rightarrow> string list \<Rightarrow> bool" where
  "anyLooseMatch toks ws = list_ex (\<lambda>t. list_ex (\<lambda>w. eqLoose t w) ws) toks"




definition unmatchedPrefixWord :: "string list \<Rightarrow> string list \<Rightarrow> bool" where
  "unmatchedPrefixWord window ws =
     list_ex (\<lambda>w. \<not> list_ex (\<lambda>t. eqLoose t w) window) (take 3 ws)"

section \<open>Sound effects and music\<close>

subsection \<open>Data\<close>

text \<open>
  An entry of the sound catalog, as the backend's \<open>/sounds\<close> endpoint returns it, and the
  decisions of the analysis service: \<open>{id, action, volume}\<close> for music, \<open>{id, when, volume}\<close>
  for an effect. A volume that is absent is \<open>None\<close>. Volumes are JavaScript numbers; the
  model computes with rationals.
\<close>

record catalogEntry =
  sound_id :: string
  sound_type :: string
  sound_tags :: "string list"
  sound_src :: string
  sound_loop :: bool

record musicData =
  md_id :: string
  md_action :: string
  md_volume :: "rat option"

record sfxData =
  sd_id :: string
  sd_when :: string
  sd_volume :: "rat option"

text \<open>The argument of the query-based path \<open>playSoundEffect\<close>: \<open>{query, priority, volume}\<close>.\<close>

record sfxQuery =
  sq_query :: string
  sq_priority :: nat
  sq_volume :: "rat option"

text \<open>An entry of the static table \<open>instantKeywords\<close>.\<close>

record keywordConfig =
  kw_query :: string
  kw_volume :: rat

text \<open>
  The options object handed to \<open>playAudio\<close>: \<open>{type, name, volume, loop, id}\<close>. The
  catalog paths pass the sound's id; the query-based path and the stingers pass none.
\<close>

record playOptions =
  po_type :: string
  po_name :: string
  po_volume :: rat
  po_loop :: bool
  po_id :: "string option"

text \<open>
  The object stored in \<open>currentMusic\<close> by \<open>playMusicElement\<close> is
  \<open>{_howl, name, type, volume}\<close>. It has no \<open>dataset\<close> property; the field \<open>mu_dataset_id\<close>
  stands for \<open>currentMusic.dataset?.id\<close>, which \<open>updateMusicById\<close> reads.
\<close>

record musicHandle =
  mu_name :: string
  mu_type :: string
  mu_volume :: rat
  mu_dataset_id :: "string option"

text \<open>A value of the map \<open>activeSounds\<close>, as \<open>playSFXBuffer\<close> stores it.\<close>

record activeSound =
  as_name :: string
  as_originalVolume :: rat
  as_type :: string
  as_startTime :: nat

text \<open>
  The key of an active sound is \<open>Date.now() + Math.random()\<close>: the pair of the clock
  reading in milliseconds and the random fraction.
\<close>

type_synonym soundKey = "nat \<times> nat"

text \<open>
  The fields of the engine that sound playback, the cooldown ledger and the preloader read
  and write. \<open>activeSounds\<close> is a JavaScript \<open>Map\<close>, kept as an association list in
  insertion order with one entry per key; \<open>sfxCooldowns\<close> maps a bucket to the time of
  its next allowed play; \<open>soundCache\<close> maps \<open>type:query\<close> to a URL; \<open>activeBuffers\<close> holds
  the URLs with a decoded buffer; \<open>stingerTimer\<close> tells whether a stinger timer is armed.
\<close>

record game =
  musicEnabled :: bool
  sfxEnabled :: bool
  predictionEnabled :: bool
  freesoundApiKey :: string
  pixabayApiKey :: string
  backendUrl :: string
  soundCatalog :: "catalogEntry list"
  currentMode :: string
  currentMusic :: "musicHandle option"
  activeSounds :: "(soundKey \<times> activeSound) list"
  maxSimultaneousSounds :: nat
  duckingInProgress :: bool
  stingerTimer :: bool
  sfxCooldownMs :: nat
  sfxCooldowns :: "string \<rightharpoonup> nat"
  moodBias :: rat
  musicLevel :: rat
  sfxLevel :: rat
  minVolume :: rat
  maxVolume :: rat
  soundCache :: "string \<rightharpoonup> string"
  activeBuffers :: "string set"
  preloadInProgress :: bool
  preloadVersion :: nat

text \<open>
  What one call takes from outside the engine: the readings of \<open>Date.now()\<close> at the
  cooldown check (\<open>now\<close>), at the start of playback (\<open>nowPlay\<close>) and when the cooldown is
  stored (\<open>nowSet\<close>); the value of \<open>Math.random()\<close> used in the key; whether Howler
  creates and starts the sound without throwing; what \<open>searchAudio\<close> returns and which
  entries it adds to \<open>soundCache\<close>; the index of the stinger chosen at random.
\<close>

record env =
  now :: nat
  nowPlay :: nat
  nowSet :: nat
  random :: nat
  howlOk :: bool
  searchUrl :: "string option"
  searchCached :: "(string \<times> string) list"
  pick :: nat

subsection \<open>String helpers\<close>

text \<open>\<open>s.startsWith(p)\<close> and \<open>s.includes(sub)\<close>.\<close>

definition startsWith :: "string \<Rightarrow> string \<Rightarrow> bool" where
  "startsWith s p = (take (length p) s = p)"

fun includesStr :: "string \<Rightarrow> string \<Rightarrow> bool" where
  "includesStr [] sub = (sub = [])"
| "includesStr (c # cs) sub = (take (length sub) (c # cs) = sub \<or> includesStr cs sub)"

text \<open>\<open>q.replace(/\s+/g, ' ').trim()\<close>\<close>

function collapseSpaces :: "string \<Rightarrow> string" where
  "collapseSpaces [] = []"
| "collapseSpaces (c # cs) =
     (if isSpace c then CHR 0x20 # collapseSpaces (dropWhile isSpace cs)
      else c # collapseSpaces cs)"
  by pat_completeness auto
termination
  by (relation "measure length") (auto simp: length_dropWhile_le less_Suc_eq_le)

definition trim :: "string \<Rightarrow> string" where
  "trim s = rev (dropWhile isSpace (rev (dropWhile isSpace s)))"

text \<open>\<open>x || d\<close> on an optional number: an absent volume and the volume \<open>0\<close> give the default.\<close>

definition orDefault :: "rat option \<Rightarrow> rat \<Rightarrow> rat" where
  "orDefault v d = (case v of None \<Rightarrow> d | Some x \<Rightarrow> if x = 0 then d else x)"

definition clamp01 :: "rat \<Rightarrow> rat" where
  "clamp01 x = max 0 (min 1 x)"

subsection \<open>Cooldown buckets\<close>

definition getSfxBucket :: "string \<Rightarrow> string" where
  "getSfxBucket query =
     (let q = toLowerCase query in
      if includesStr q ''door'' then ''door''
      else if includesStr q ''footstep'' then ''footsteps''
      else if includesStr q ''whoosh'' \<or> includesStr q ''wind'' then ''wind''
      else if includesStr q ''wolf'' \<and> includesStr q ''howl'' then ''wolf-howl''
      else if includesStr q ''jingle'' \<or> includesStr q ''bell'' then ''bells''
      else if includesStr q ''thunder'' then ''thunder''
      else if includesStr q ''creak'' then ''creak''
      else if includesStr q ''knock'' then ''knock''
      else trim (collapseSpaces q))"

subsection \<open>Playback\<close>

text \<open>
  \<open>duckMusic\<close>: nothing while a duck is in progress or no music plays; otherwise the
  envelope starts. The flag is cleared by a timer when the release has run (\<open>duckRelease\<close>).
\<close>

definition duckMusic :: "game \<Rightarrow> game" where
  "duckMusic st =
     (if duckingInProgress st then st
      else if currentMusic st = None then st
      else st\<lparr>duckingInProgress := True\<rparr>)"

definition duckRelease :: "game \<Rightarrow> game" where
  "duckRelease st = st\<lparr>duckingInProgress := False\<rparr>"

text \<open>
  \<open>playSFXBuffer\<close>: duck the music, create and start the Howl, enter it into
  \<open>activeSounds\<close>. The result tells whether a handle was returned; an exception from
  Howler leaves \<open>activeSounds\<close> as it was. The prefetch of alternates that follows runs
  on its own and writes only the buffer cache.
\<close>

definition playSFXBuffer :: "env \<Rightarrow> string \<Rightarrow> playOptions \<Rightarrow> game \<Rightarrow> game \<times> bool option" where
  "playSFXBuffer e url options st =
     (let st1 = duckMusic st;
          original = clamp01 (po_volume options)
      in if \<not> howlOk e then (st1, None)
         else (st1\<lparr>activeSounds :=
                 AList.update (nowPlay e, random e)
                   \<lparr>as_name = po_name options, as_originalVolume = original,
                    as_type = ''sfx'', as_startTime = nowPlay e\<rparr>
                   (activeSounds st1)\<rparr>, Some True))"

text \<open>
  \<open>playMusicElement\<close>: the old track is faded out and stopped by a timer, the new Howl
  starts, and \<open>currentMusic\<close> is replaced by \<open>{_howl, name, type, volume}\<close>; the id of the
  options is not stored.
\<close>

definition playMusicElement :: "env \<Rightarrow> string \<Rightarrow> playOptions \<Rightarrow> game \<Rightarrow> game \<times> bool option" where
  "playMusicElement e url options st =
     (if \<not> howlOk e then (st, None)
      else (st\<lparr>currentMusic :=
               Some \<lparr>mu_name = po_name options, mu_type = po_type options,
                     mu_volume = po_volume options, mu_dataset_id = None\<rparr>\<rparr>, Some True))"

text \<open>
  \<open>playAudio\<close>: no URL, no sound; an exception of the player is caught and gives \<open>null\<close>.
  The result is \<open>True\<close> when a handle is returned.
\<close>

definition playAudio :: "env \<Rightarrow> string \<Rightarrow> playOptions \<Rightarrow> game \<Rightarrow> game \<times> bool" where
  "playAudio e url options st =
     (if url = [] then (st, False)
      else case (if po_type options = ''sfx'' then playSFXBuffer e url options st
                 else playMusicElement e url options st) of
             (st1, None) \<Rightarrow> (st1, False)
           | (st1, Some h) \<Rightarrow> (st1, True))"

text \<open>The end of an effect (\<open>onend\<close>) removes its entry.\<close>

definition sfxEnded :: "soundKey \<Rightarrow> game \<Rightarrow> game" where
  "sfxEnded k st = st\<lparr>activeSounds := AList.delete k (activeSounds st)\<rparr>"

definition scheduleNextStinger :: "game \<Rightarrow> game" where
  "scheduleNextStinger st =
     (if \<not> sfxEnabled st \<or> \<not> predictionEnabled st then st
      else st\<lparr>stingerTimer := True\<rparr>)"

definition stopAllAudio :: "game \<Rightarrow> game" where
  "stopAllAudio st = st\<lparr>stingerTimer := False, currentMusic := None, activeSounds := []\<rparr>"

definition soundUrlOf :: "game \<Rightarrow> catalogEntry \<Rightarrow> string" where
  "soundUrlOf st sound =
     (if startsWith (sound_src sound) ''http://'' \<or> startsWith (sound_src sound) ''https://''
      then sound_src sound
      else backendUrl st @ sound_src sound)"

definition updateMusicById :: "env \<Rightarrow> musicData \<Rightarrow> game \<Rightarrow> game" where
  "updateMusicById e musicData st =
     (if \<not> musicEnabled st then st
      else case find (\<lambda>s. sound_id s = md_id musicData) (soundCatalog st) of
        None \<Rightarrow> st
      | Some sound \<Rightarrow>
          if md_action musicData = ''play_or_continue'' \<and>
             (case currentMusic st of
                None \<Rightarrow> False
              | Some m \<Rightarrow> mu_dataset_id m = Some (md_id musicData))
          then st
          else
            let soundUrl = soundUrlOf st sound;
                moodMul = 85 / 100 + moodBias st * (3 / 10);
                baseVol = orDefault (md_volume musicData) (1 / 2);
                effectiveVol = clamp01 (baseVol * moodMul * musicLevel st);
                (st1, played) = playAudio e soundUrl
                   \<lparr>po_type = ''music'', po_name = sound_id sound,
                    po_volume = effectiveVol, po_loop = True, po_id = Some (sound_id sound)\<rparr> st
            in scheduleNextStinger st1)"

text \<open>
  \<open>playSoundEffectById\<close>. The second component tells whether playback started
  (\<open>played\<close> is a handle).
\<close>

definition playSoundEffectById :: "env \<Rightarrow> sfxData \<Rightarrow> game \<Rightarrow> game \<times> bool" where
  "playSoundEffectById e sfxData st =
     (if \<not> sfxEnabled st then (st, False)
      else if length (activeSounds st) \<ge> maxSimultaneousSounds st then (st, False)
      else case find (\<lambda>s. sound_id s = sd_id sfxData) (soundCatalog st) of
        None \<Rightarrow> (st, False)
      | Some sound \<Rightarrow>
          let bucket = getSfxBucket (sd_id sfxData);
              nextAllowed = (case sfxCooldowns st bucket of None \<Rightarrow> 0 | Some t \<Rightarrow> t)
          in if now e < nextAllowed then (st, False)
             else
               let soundUrl = soundUrlOf st sound;
                   effectiveVol = clamp01 (orDefault (sd_volume sfxData) (7 / 10) * sfxLevel st);
                   (st1, played) = playAudio e soundUrl
                      \<lparr>po_type = ''sfx'', po_name = sound_id sound,
                       po_volume = effectiveVol, po_loop = False, po_id = Some (sound_id sound)\<rparr> st
               in if played
                  then (st1\<lparr>sfxCooldowns := (sfxCooldowns st1)(bucket \<mapsto> nowSet e + sfxCooldownMs st1)\<rparr>, True)
                  else (st1, False))"

definition calculateVolume :: "game \<Rightarrow> rat \<Rightarrow> rat" where
  "calculateVolume st intensity = minVolume st + intensity * (maxVolume st - minVolume st)"

text \<open>
  \<open>searchAudio\<close> asks the configured sources; the model takes the answer and the cache
  entries written on the way from the environment.
\<close>

definition searchAudio :: "env \<Rightarrow> game \<Rightarrow> game \<times> string option" where
  "searchAudio e st = (st\<lparr>soundCache := soundCache st ++ map_of (searchCached e)\<rparr>, searchUrl e)"

text \<open>\<open>playSoundEffect\<close>, the query-based path used by keyword and story cues.\<close>

definition playSoundEffect :: "env \<Rightarrow> sfxQuery \<Rightarrow> game \<Rightarrow> game \<times> bool" where
  "playSoundEffect e sfxData st =
     (if \<not> sfxEnabled st then (st, False)
      else if length (activeSounds st) \<ge> maxSimultaneousSounds st then (st, False)
      else
        let bucket = getSfxBucket (sq_query sfxData);
            nextAllowed = (case sfxCooldowns st bucket of None \<Rightarrow> 0 | Some t \<Rightarrow> t)
        in if now e < nextAllowed then (st, False)
           else case searchAudio e st of
              (st1, None) \<Rightarrow> (st1, False)
            | (st1, Some soundUrl) \<Rightarrow>
                if soundUrl = [] then (st1, False)
                else
                  let (st2, played) = playAudio e soundUrl
                        \<lparr>po_type = ''sfx'', po_name = sq_query sfxData,
                         po_volume = calculateVolume st1 (orDefault (sq_volume sfxData) (7 / 10)),
                         po_loop = False, po_id = None\<rparr> st1
                  in if played
                     then (st2\<lparr>sfxCooldowns := (sfxCooldowns st2)(bucket \<mapsto> nowSet e + sfxCooldownMs st2)\<rparr>, True)
                     else (st2, False))"

text \<open>
  \<open>playSoundEffect\<close> in two steps, as the event loop runs it. The first step is the part
  before \<open>await this.searchAudio(...)\<close>: the tests of the switch, of the number of active
  sounds and of the cooldown, none of which writes anything; when they pass, the call is
  suspended with its arguments and its bucket. The second step runs when the search has
  resolved: it plays the sound and then stores the cooldown. Other calls can take their
  first step between the two. Taken together without anything in between, the two steps
  are \<open>playSoundEffect\<close> above.
\<close>

record pendingSfx =
  ps_data :: sfxQuery
  ps_bucket :: string

definition playSoundEffectBegin :: "env \<Rightarrow> sfxQuery \<Rightarrow> game \<Rightarrow> pendingSfx option" where
  "playSoundEffectBegin e sfxData st =
     (if \<not> sfxEnabled st then None
      else if length (activeSounds st) \<ge> maxSimultaneousSounds st then None
      else
        let bucket = getSfxBucket (sq_query sfxData);
            nextAllowed = (case sfxCooldowns st bucket of None \<Rightarrow> 0 | Some t \<Rightarrow> t)
        in if now e < nextAllowed then None
           else Some \<lparr>ps_data = sfxData, ps_bucket = bucket\<rparr>)"

definition playSoundEffectResume :: "env \<Rightarrow> pendingSfx \<Rightarrow> game \<Rightarrow> game \<times> bool" where
  "playSoundEffectResume e p st =
     (case searchAudio e st of
        (st1, None) \<Rightarrow> (st1, False)
      | (st1, Some soundUrl) \<Rightarrow>
          if soundUrl = [] then (st1, False)
          else
            let (st2, played) = playAudio e soundUrl
                  \<lparr>po_type = ''sfx'', po_name = sq_query (ps_data p),
                   po_volume = calculateVolume st1 (orDefault (sq_volume (ps_data p)) (7 / 10)),
                   po_loop = False, po_id = None\<rparr> st1
            in if played
               then (st2\<lparr>sfxCooldowns := (sfxCooldowns st2)(ps_bucket p \<mapsto> nowSet e + sfxCooldownMs st2)\<rparr>, True)
               else (st2, False))"

subsection \<open>Stingers\<close>

definition getModeStingers :: "string \<Rightarrow> string list" where
  "getModeStingers mode =
     (case map_of
        [(''bedtime'', [''owl hoot'', ''wind whoosh'', ''fire crackling'']),
         (''dnd'', [''magic whoosh'', ''coin jingle'', ''torch crackle'']),
         (''horror'', [''whisper'', ''heartbeat'', ''radio static'']),
         (''halloween'', [''witch cackle'', ''wolf howl'', ''door creak'']),
         (''christmas'', [''jingle bells'', ''bell chime'', ''wind arctic'']),
         (''sing'', [''crowd cheer'', ''applause'', ''clap'']),
         (''auto'', [''wind whoosh'', ''door creak'', ''footsteps''])] mode of
        Some s \<Rightarrow> s
      | None \<Rightarrow> [''wind whoosh'', ''door creak'', ''footsteps''])"

text \<open>
  The callback of the stinger timer set by \<open>scheduleNextStinger\<close>: it picks a stinger of
  the current mode, looks it up and plays it through \<open>playAudio\<close>, then arms the next
  timer.
\<close>

definition stingerFire :: "env \<Rightarrow> game \<Rightarrow> game" where
  "stingerFire e st =
     (if \<not> stingerTimer st then st
      else
        let stingerSet = getModeStingers (currentMode st);
            choice = stingerSet ! (pick e mod length stingerSet)
        in case searchAudio e st of
             (st1, None) \<Rightarrow> scheduleNextStinger st1
           | (st1, Some url) \<Rightarrow>
               if url = [] then scheduleNextStinger st1
               else
                 let (st2, played) = playAudio e url
                       \<lparr>po_type = ''sfx'', po_name = choice,
                        po_volume = calculateVolume st1 (1 / 2), po_loop = False, po_id = None\<rparr> st1
                 in scheduleNextStinger st2)"

section \<open>Instant keyword cues\<close>

text \<open>The static trigger table of the constructor, in the order of its keys.\<close>

definition instantKeywords :: "(string \<times> keywordConfig) list" where
  "instantKeywords =
     [(''bang'', \<lparr>kw_query = ''gunshot explosion'', kw_volume = 9 / 10\<rparr>),
      (''crash'', \<lparr>kw_query = ''crash metal'', kw_volume = 8 / 10\<rparr>),
      (''boom'', \<lparr>kw_query = ''explosion boom'', kw_volume = 9 / 10\<rparr>),
      (''thunder'', \<lparr>kw_query = ''thunder storm'', kw_volume = 8 / 10\<rparr>),
      (''scream'', \<lparr>kw_query = ''scream horror'', kw_volume = 7 / 10\<rparr>),
      (''roar'', \<lparr>kw_query = ''monster roar'', kw_volume = 8 / 10\<rparr>),
      (''growl'', \<lparr>kw_query = ''monster growl'', kw_volume = 8 / 10\<rparr>),
      (''snarl'', \<lparr>kw_query = ''monster growl'', kw_volume = 8 / 10\<rparr>),
      (''ogre'', \<lparr>kw_query = ''monster growl'', kw_volume = 8 / 10\<rparr>),
      (''troll'', \<lparr>kw_query = ''monster growl'', kw_volume = 8 / 10\<rparr>),
      (''orc'', \<lparr>kw_query = ''monster growl'', kw_volume = 8 / 10\<rparr>),
      (''goblin'', \<lparr>kw_query = ''monster growl'', kw_volume = 8 / 10\<rparr>),
      (''beast'', \<lparr>kw_query = ''monster growl'', kw_volume = 8 / 10\<rparr>),
      (''slam'', \<lparr>kw_query = ''door slam'', kw_volume = 7 / 10\<rparr>),
      (''splash'', \<lparr>kw_query = ''water splash'', kw_volume = 6 / 10\<rparr>),
      (''whoosh'', \<lparr>kw_query = ''wind whoosh'', kw_volume = 6 / 10\<rparr>),
      (''thud'', \<lparr>kw_query = ''heavy thud'', kw_volume = 7 / 10\<rparr>),
      (''bark'', \<lparr>kw_query = ''dog bark'', kw_volume = 7 / 10\<rparr>),
      (''woof'', \<lparr>kw_query = ''dog bark'', kw_volume = 7 / 10\<rparr>),
      (''meow'', \<lparr>kw_query = ''cat meow'', kw_volume = 6 / 10\<rparr>),
      (''knock'', \<lparr>kw_query = ''door knock'', kw_volume = 7 / 10\<rparr>),
      (''footsteps'', \<lparr>kw_query = ''footsteps'', kw_volume = 6 / 10\<rparr>),
      (''footstep'', \<lparr>kw_query = ''footsteps'', kw_volume = 6 / 10\<rparr>),
      (''clap'', \<lparr>kw_query = ''applause'', kw_volume = 7 / 10\<rparr>),
      (''applause'', \<lparr>kw_query = ''applause'', kw_volume = 7 / 10\<rparr>),
      (''laugh'', \<lparr>kw_query = ''laugh'', kw_volume = 7 / 10\<rparr>),
      (''giggle'', \<lparr>kw_query = ''laugh'', kw_volume = 6 / 10\<rparr>),
      (''creak'', \<lparr>kw_query = ''door creak'', kw_volume = 6 / 10\<rparr>),
      (''whisper'', \<lparr>kw_query = ''whisper breath'', kw_volume = 5 / 10\<rparr>),
      (''heartbeat'', \<lparr>kw_query = ''heartbeat'', kw_volume = 6 / 10\<rparr>),
      (''jingle'', \<lparr>kw_query = ''jingle bells'', kw_volume = 7 / 10\<rparr>),
      (''sleigh'', \<lparr>kw_query = ''sleigh bells'', kw_volume = 7 / 10\<rparr>),
      (''hohoho'', \<lparr>kw_query = ''santa laugh ho ho'', kw_volume = 8 / 10\<rparr>),
      (''cackle'', \<lparr>kw_query = ''witch cackle laugh'', kw_volume = 7 / 10\<rparr>),
      (''boo'', \<lparr>kw_query = ''ghost boo'', kw_volume = 6 / 10\<rparr>),
      (''howl'', \<lparr>kw_query = ''wolf howl'', kw_volume = 7 / 10\<rparr>)]"

text \<open>
  The test \<open>new RegExp(`\\b${keyword}\\b`, 'i').test(lowerText)\<close> for a keyword made of
  letters. \<open>\b\<close> holds at a position when exactly one of the characters before and after
  it is a word character \<open>[A-Za-z0-9_]\<close>; the flag \<open>i\<close> compares letters without case.
\<close>

definition isWordChar :: "char \<Rightarrow> bool" where
  "isWordChar c =
     (c \<in> set ''abcdefghijklmnopqrstuvwxyzABCDEFGHIJKLMNOPQRSTUVWXYZ0123456789_'')"

definition boundaryAt :: "string \<Rightarrow> nat \<Rightarrow> bool" where
  "boundaryAt s p =
     ((0 < p \<and> p \<le> length s \<and> isWordChar (s ! (p - 1))) \<noteq> (p < length s \<and> isWordChar (s ! p)))"

definition matchesAt :: "string \<Rightarrow> string \<Rightarrow> nat \<Rightarrow> bool" where
  "matchesAt keyword s p =
     (boundaryAt s p \<and>
      p + length keyword \<le> length s \<and>
      toLowerCase (take (length keyword) (drop p s)) = toLowerCase keyword \<and>
      boundaryAt s (p + length keyword))"

definition wordRegexTest :: "string \<Rightarrow> string \<Rightarrow> bool" where
  "wordRegexTest keyword s = list_ex (matchesAt keyword s) [0..<Suc (length s)]"

text \<open>
  Whole-word matching in the words of the specification, to compare the pattern with: the
  keyword occurs in the text, letters compared without case, with no word character
  directly before or after the occurrence. \<open>plainKeyword\<close> holds of a non-empty keyword
  that begins and ends with a word character, as every key of the table does.
\<close>

definition wholeWordOccurrence :: "string \<Rightarrow> string \<Rightarrow> bool" where
  "wholeWordOccurrence keyword s =
     (\<exists>pre mid post. s = pre @ mid @ post \<and> toLowerCase mid = toLowerCase keyword \<and>
        (pre = [] \<or> \<not> isWordChar (last pre)) \<and> (post = [] \<or> \<not> isWordChar (hd post)))"

definition plainKeyword :: "string \<Rightarrow> bool" where
  "plainKeyword keyword = (keyword \<noteq> [] \<and> isWordChar (hd keyword) \<and> isWordChar (last keyword))"

text \<open>The entry the loop of \<open>checkInstantKeywords\<close> stops at: the first whose pattern matches.\<close>

definition firstKeyword :: "string \<Rightarrow> (string \<times> keywordConfig) option" where
  "firstKeyword text = find (\<lambda>(keyword, config). wordRegexTest keyword (toLowerCase text)) instantKeywords"

text \<open>
  The enablement gate at the head of \<open>checkInstantKeywords\<close> and of
  \<open>preloadSfxForCurrentMode\<close>: an audio API key is set and effects are switched on.
\<close>

definition gatesOpen :: "game \<Rightarrow> bool" where
  "gatesOpen st = ((freesoundApiKey st \<noteq> [] \<or> pixabayApiKey st \<noteq> []) \<and> sfxEnabled st)"

text \<open>\<open>playInstantSound(config)\<close> goes through the query-based effect path.\<close>

definition playInstantSound :: "env \<Rightarrow> keywordConfig \<Rightarrow> game \<Rightarrow> game \<times> bool" where
  "playInstantSound e config st =
     playSoundEffect e \<lparr>sq_query = kw_query config, sq_priority = 10, sq_volume = Some (kw_volume config)\<rparr> st"

text \<open>
  \<open>checkInstantKeywords(text)\<close>. The function returns nothing; the second component of
  the result is the configuration it passed to \<open>playInstantSound\<close>, if any.
\<close>

definition checkInstantKeywords :: "env \<Rightarrow> string \<Rightarrow> game \<Rightarrow> game \<times> keywordConfig option" where
  "checkInstantKeywords e text st =
     (if (freesoundApiKey st = [] \<and> pixabayApiKey st = []) \<or> text = [] \<or> \<not> sfxEnabled st
      then (st, None)
      else case firstKeyword text of
             None \<Rightarrow> (st, None)
           | Some (keyword, config) \<Rightarrow> (fst (playInstantSound e config st), Some config))"

section \<open>Decisions of the analysis service\<close>

text \<open>
  The response of \<open>/analyze\<close>: \<open>{scene, music, sfx}\<close>, where \<open>music\<close> may be \<open>null\<close> and
  \<open>sfx\<close> may be missing.
\<close>

record decision =
  dec_scene :: string
  dec_music :: "musicData option"
  dec_sfx :: "sfxData list option"

text \<open>
  The server's validation before it responds. The music decision is set to \<open>null\<close> when
  its id is truthy (a non-empty string) and not in the catalog; the effects are filtered
  by their ids.
\<close>

definition inCatalog :: "catalogEntry list \<Rightarrow> string \<Rightarrow> bool" where
  "inCatalog catalog i = (find (\<lambda>s. sound_id s = i) catalog \<noteq> None)"

definition validateDecision :: "catalogEntry list \<Rightarrow> decision \<Rightarrow> decision" where
  "validateDecision catalog d =
     (let d1 = (case dec_music d of
                  None \<Rightarrow> d
                | Some m \<Rightarrow> if md_id m \<noteq> [] \<and> \<not> inCatalog catalog (md_id m)
                            then d\<lparr>dec_music := None\<rparr> else d)
      in d1\<lparr>dec_sfx :=
              Some (filter (\<lambda>s. inCatalog catalog (sd_id s))
                      (case dec_sfx d1 of None \<Rightarrow> [] | Some l \<Rightarrow> l))\<rparr>)"

text \<open>
  A run of music decisions, each applied by \<open>updateMusicById\<close> at its arrival time in
  milliseconds. \<open>updateMusicById\<close> does not read the clock.
\<close>

fun applyMusicDecisions :: "env \<Rightarrow> (nat \<times> musicData) list \<Rightarrow> game \<Rightarrow> game" where
  "applyMusicDecisions e [] st = st"
| "applyMusicDecisions e ((t, musicData) # rest) st =
     applyMusicDecisions e rest (updateMusicById (e\<lparr>now := t\<rparr>) musicData st)"

section \<open>Preloading\<close>

definition autoPreloadSet :: "string list" where
  "autoPreloadSet =
     [''dog bark'', ''door knock'', ''footsteps'', ''thunder'', ''fire crackling'', ''wind whoosh'', ''applause'', ''laugh'', ''scream'', ''metal crash'', ''water splash'', ''door slam'', ''heartbeat'', ''bird chirp'', ''cat meow'', ''car horn'', ''bell chime'', ''crowd murmur'', ''coin jingle'', ''keyboard typing'']"

text \<open>\<open>modePreloadSets\<close>; a mode without a set of its own uses the set of \<open>auto\<close>.\<close>

definition modePreloadSets :: "(string \<times> string list) list" where
  "modePreloadSets =
     [(''bedtime'', [''dog bark'', ''cat meow'', ''door knock'', ''rain'', ''wind whoosh'', ''fire crackling'', ''owl hoot'', ''crickets'', ''soft footsteps'', ''page turn'', ''blanket rustle'', ''wood creak'', ''clock tick'', ''distant thunder'', ''water drip'', ''bird chirp'', ''lullaby chime'', ''toy bell'', ''piano soft'', ''heartbeat soft'']),
      (''dnd'', [''sword clash'', ''arrow shot'', ''monster roar'', ''footsteps'', ''door creak'', ''thunder'', ''coin jingle'', ''spell cast'', ''magic whoosh'', ''shield block'', ''torch crackle'', ''crowd tavern'', ''horse gallop'', ''gate open'', ''dragon roar'', ''bow twang'', ''book page turn'', ''chain rattle'', ''door slam'', ''wind cave'']),
      (''horror'', [''door creak'', ''whisper'', ''heartbeat'', ''wind whoosh'', ''ghost boo'', ''witch cackle'', ''chain drag'', ''footsteps hallway'', ''breath heavy'', ''thunder distant'', ''scream far'', ''floorboard creak'', ''owl hoot'', ''metal scrape'', ''water drip'', ''clock tick'', ''radio static'', ''crow caw'', ''cat hiss'', ''wolf howl'']),
      (''christmas'', [''jingle bells'', ''sleigh bells'', ''fire crackling'', ''children laugh'', ''wind arctic'', ''snow footsteps'', ''gift wrap'', ''door knock'', ''bell chime'', ''choir ahh'', ''reindeer bells'', ''door creak'', ''ice crackle'', ''wind whoosh'', ''glass clink'', ''street christmas'', ''crowd cheer'', ''applause'', ''laugh'', ''santa ho ho'']),
      (''halloween'', [''witch cackle'', ''ghost boo'', ''wolf howl'', ''door creak'', ''thunder'', ''owl hoot'', ''chain rattle'', ''bat flutter'', ''cat hiss'', ''wind whoosh'', ''zombie groan'', ''crow caw'', ''footsteps leaves'', ''pumpkin squash'', ''monster roar'', ''scream far'', ''gate creak'', ''rain'', ''distant bells'', ''cauldron bubble'']),
      (''sing'', [''applause'', ''crowd cheer'', ''drum kick'', ''snare hit'', ''metronome click'', ''hi hat'', ''clap'', ''shaker'', ''tambourine'', ''airhorn short'', ''bass drop short'', ''reverb clap'', ''vocal ahh short'', ''vocal ohh short'', ''tap tempo click'', ''count in'', ''guitar strum'', ''piano chord'', ''sub drop'', ''riser short'']),
      (''auto'', autoPreloadSet)]"

definition genericPreloadSet :: "string list" where
  "genericPreloadSet =
     [''dog bark'', ''door knock'', ''footsteps'', ''thunder'', ''fire crackling'', ''wind whoosh'', ''applause'', ''laugh'', ''scream'', ''metal crash'', ''water splash'', ''door slam'', ''heartbeat'', ''bird chirp'', ''cat meow'', ''bell chime'', ''coin jingle'', ''crow caw'', ''owl hoot'', ''chain rattle'']"

text \<open>\<open>[...new Set(xs)]\<close>: the first occurrence of each element, in order.\<close>

fun uniq :: "string list \<Rightarrow> string list \<Rightarrow> string list" where
  "uniq seen [] = []"
| "uniq seen (x # xs) = (if x \<in> set seen then uniq seen xs else x # uniq (x # seen) xs)"

text \<open>
  A preload task is the closure built for one query; it carries the version token of its
  preload. Its phases are the points where it waits: not yet run, waiting for
  \<open>searchAudio\<close>, waiting for the download and decoding of a URL, finished.
\<close>

datatype phase = Pending string | Searching string | Fetching string | Finished

type_synonym preloadTask = "nat \<times> phase"

text \<open>
  \<open>preloadSfxForCurrentMode(versionToken)\<close> up to the creation of the tasks; the tasks are
  then run by \<open>runWithConcurrency\<close>.
\<close>

definition preloadSfxForCurrentMode :: "nat \<Rightarrow> game \<Rightarrow> game \<times> preloadTask list" where
  "preloadSfxForCurrentMode versionToken st =
     (if (freesoundApiKey st = [] \<and> pixabayApiKey st = []) \<or> \<not> sfxEnabled st then (st, [])
      else if preloadInProgress st then (st, [])
      else
        let base = (case map_of modePreloadSets (currentMode st) of
                      Some b \<Rightarrow> b
                    | None \<Rightarrow> autoPreloadSet);
            merged = uniq [] (base @ genericPreloadSet);
            target = take 20 merged
        in if target = [] then (st, [])
           else (st\<lparr>preloadInProgress := True\<rparr>, map (\<lambda>q. (versionToken, Pending q)) target))"

text \<open>
  One step of a task, up to its next wait. \<open>found\<close> and \<open>cached\<close> are what the awaited
  \<open>searchAudio\<close> returned and stored; \<open>decoded\<close> tells whether download and decoding
  succeeded. The version token is compared once, when the task starts.
\<close>

fun taskStep :: "string option \<Rightarrow> (string \<times> string) list \<Rightarrow> bool \<Rightarrow> preloadTask \<Rightarrow> game \<Rightarrow> preloadTask \<times> game" where
  "taskStep found cached decoded (versionToken, Pending q) st =
     (if versionToken \<noteq> preloadVersion st then ((versionToken, Finished), st)
      else if (case soundCache st (''sfx:'' @ q) of
                 None \<Rightarrow> False
               | Some cachedUrl \<Rightarrow> cachedUrl \<noteq> [] \<and> cachedUrl \<in> activeBuffers st)
           then ((versionToken, Finished), st)
      else ((versionToken, Searching q), st))"
| "taskStep found cached decoded (versionToken, Searching q) st =
     (let st1 = st\<lparr>soundCache := soundCache st ++ map_of cached\<rparr> in
      case found of
        None \<Rightarrow> ((versionToken, Finished), st1)
      | Some url \<Rightarrow>
          if url = [] then ((versionToken, Finished), st1)
          else if url \<in> activeBuffers st1 then ((versionToken, Finished), st1)
          else ((versionToken, Fetching url), st1))"
| "taskStep found cached decoded (versionToken, Fetching url) st =
     (if decoded then ((versionToken, Finished), st\<lparr>activeBuffers := insert url (activeBuffers st)\<rparr>)
      else ((versionToken, Finished), st))"
| "taskStep found cached decoded (versionToken, Finished) st = ((versionToken, Finished), st)"

text \<open>
  \<open>selectMode(mode)\<close>: the caches are cleared, all audio is stopped and the preload
  version is incremented; a preload with the new version is started by a timer.
\<close>

definition selectMode :: "string \<Rightarrow> game \<Rightarrow> game" where
  "selectMode mode st =
     (let st1 = st\<lparr>currentMode := mode, soundCache := Map.empty\<rparr>;
          st2 = stopAllAudio st1
      in st2\<lparr>preloadVersion := Suc (preloadVersion st2)\<rparr>)"

text \<open>
  The events that interleave while preloads run: a mode change, the version bump of
  \<open>startListening\<close>, the start of a preload with a token taken earlier, the end of a
  preload (\<open>finally\<close>), and one step of the task at a position of the pool.
\<close>

datatype event =
    SelectMode string
  | ListenBump
  | StartPreload nat
  | PreloadSettled
  | TaskStep nat "string option" "(string \<times> string) list" bool

text \<open>The events that increment \<open>preloadVersion\<close>, and the steps of tasks.\<close>

fun isBump :: "event \<Rightarrow> bool" where
  "isBump (SelectMode mode) = True"
| "isBump ListenBump = True"
| "isBump ev = False"

fun isTaskStep :: "event \<Rightarrow> bool" where
  "isTaskStep (TaskStep k found cached decoded) = True"
| "isTaskStep ev = False"

fun applyEvent :: "event \<Rightarrow> game \<times> preloadTask list \<Rightarrow> game \<times> preloadTask list" where
  "applyEvent (SelectMode mode) (st, pool) = (selectMode mode st, pool)"
| "applyEvent ListenBump (st, pool) = (st\<lparr>preloadVersion := Suc (preloadVersion st)\<rparr>, pool)"
| "applyEvent (StartPreload v) (st, pool) =
     (case preloadSfxForCurrentMode v st of (st1, tasks) \<Rightarrow> (st1, pool @ tasks))"
| "applyEvent PreloadSettled (st, pool) = (st\<lparr>preloadInProgress := False\<rparr>, pool)"
| "applyEvent (TaskStep k found cached decoded) (st, pool) =
     (if k < length pool
      then (case taskStep found cached decoded (pool ! k) st of
              (task, st1) \<Rightarrow> (st1, pool[k := task]))
      else (st, pool))"

fun runEvents :: "event list \<Rightarrow> game \<times> preloadTask list \<Rightarrow> game \<times> preloadTask list" where
  "runEvents [] c = c"
| "runEvents (ev # evs) c = runEvents evs (applyEvent ev c)"

text \<open>The audible state: the music slot and the collection of active sounds.\<close>

definition audible :: "game \<Rightarrow> musicHandle option \<times> (soundKey \<times> activeSound) list" where
  "audible st = (currentMusic st, activeSounds st)"

section \<open>Initial state\<close>

text \<open>
  The fields as the constructor sets them, with the stored preferences at their defaults;
  the backend URL and the two API keys come from the configuration. \<open>togglePrediction\<close>
  and \<open>catalogLoaded\<close> are the two later assignments the examples below use: the
  prediction switch of the settings panel and the catalog fetched from \<open>/sounds\<close>.
\<close>

definition initialGame :: "string \<Rightarrow> string \<Rightarrow> string \<Rightarrow> game" where
  "initialGame backend freesoundKey pixabayKey =
     \<lparr>musicEnabled = True, sfxEnabled = True, predictionEnabled = False,
      freesoundApiKey = freesoundKey, pixabayApiKey = pixabayKey, backendUrl = backend,
      soundCatalog = [], currentMode = ''dnd'', currentMusic = None, activeSounds = [],
      maxSimultaneousSounds = 3, duckingInProgress = False, stingerTimer = False,
      sfxCooldownMs = 3500, sfxCooldowns = Map.empty,
      moodBias = 1 / 2, musicLevel = 1 / 2, sfxLevel = 9 / 10, minVolume = 2 / 10, maxVolume = 7 / 10,
      soundCache = Map.empty, activeBuffers = {}, preloadInProgress = False, preloadVersion = 0\<rparr>"

definition togglePrediction :: "bool \<Rightarrow> game \<Rightarrow> game" where
  "togglePrediction b st = st\<lparr>predictionEnabled := b\<rparr>"

definition catalogLoaded :: "catalogEntry list \<Rightarrow> game \<Rightarrow> game" where
  "catalogLoaded sounds st = st\<lparr>soundCatalog := sounds\<rparr>"

text \<open>A small catalog and environment for the worked examples.\<close>

definition demoCatalog :: "catalogEntry list" where
  "demoCatalog =
     [\<lparr>sound_id = ''calm_meadow'', sound_type = ''music'', sound_tags = [''calm''],
       sound_src = ''/media/music/calm_meadow.mp3'', sound_loop = True\<rparr>,
      \<lparr>sound_id = ''peaceful_village'', sound_type = ''music'', sound_tags = [''peaceful''],
       sound_src = ''/media/music/peaceful_village.mp3'', sound_loop = True\<rparr>,
      \<lparr>sound_id = ''epic_battle'', sound_type = ''music'', sound_tags = [''epic''],
       sound_src = ''/media/music/epic_battle.mp3'', sound_loop = True\<rparr>,
      \<lparr>sound_id = ''door_creak'', sound_type = ''sfx'', sound_tags = [''door''],
       sound_src = ''/media/sfx/door_creak.mp3'', sound_loop = False\<rparr>,
      \<lparr>sound_id = ''door_slam'', sound_type = ''sfx'', sound_tags = [''door''],
       sound_src = ''/media/sfx/door_slam.mp3'', sound_loop = False\<rparr>,
      \<lparr>sound_id = ''dog_bark'', sound_type = ''sfx'', sound_tags = [''dog''],
       sound_src = ''/media/sfx/dog_bark.mp3'', sound_loop = False\<rparr>,
      \<lparr>sound_id = ''thunder_clap'', sound_type = ''sfx'', sound_tags = [''storm''],
       sound_src = ''/media/sfx/thunder_clap.mp3'', sound_loop = False\<rparr>]"

definition demoGame :: game where
  "demoGame = catalogLoaded demoCatalog (initialGame ''https://backend.example'' ''fs-key'' [])"

definition envAt :: "nat \<Rightarrow> env" where
  "envAt t =
     \<lparr>now = t, nowPlay = t, nowSet = t, random = 0, howlOk = True,
      searchUrl = Some ''https://cdn.example/sound.mp3'', searchCached = [], pick = 0\<rparr>"

definition sfxOf :: "string \<Rightarrow> sfxData" where
  "sfxOf i = \<lparr>sd_id = i, sd_when = ''immediate'', sd_volume = None\<rparr>"

definition musicOf :: "string \<Rightarrow> string \<Rightarrow> musicData" where
  "musicOf i action = \<lparr>md_id = i, md_action = action, md_volume = Some (1 / 2)\<rparr>"

text \<open>
  The request that \<open>playInstantSound\<close> makes for the keyword \<open>bark\<close>, and the suspended
  call it becomes once the tests of \<open>playSoundEffect\<close> have passed.
\<close>

definition barkCue :: sfxQuery where
  "barkCue = \<lparr>sq_query = ''dog bark'', sq_priority = 10, sq_volume = Some (7 / 10)\<rparr>"

definition barkPending :: pendingSfx where
  "barkPending = \<lparr>ps_data = barkCue, ps_bucket = ''dog bark''\<rparr>"

text \<open>
  A session with prediction switched on: a music decision at time 0 starts
  \<open>calm_meadow\<close> and arms the stinger timer (due 20 to 45 seconds later); at 29 seconds
  three effect decisions with different buckets start three effects one millisecond
  apart.
\<close>

definition crowdedGame :: game where
  "crowdedGame =
     fst (playSoundEffectById (envAt 29002) (sfxOf ''thunder_clap'')
       (fst (playSoundEffectById (envAt 29001) (sfxOf ''dog_bark'')
         (fst (playSoundEffectById (envAt 29000) (sfxOf ''door_creak'')
           (updateMusicById (envAt 0) (musicOf ''calm_meadow'' ''play_or_continue'')
             (togglePrediction True demoGame)))))))"

section \<open>Properties\<close>

subsection \<open>Loose equality\<close>

lemma eqLoose_sym: "eqLoose a b = eqLoose b a"
  by (auto simp: eqLoose_def Let_def)

lemma eqLoose_refl: "eqLoose w w"
  by (simp add: eqLoose_def)

text \<open>
  Claim C10. The loose word equality of the story aligner is symmetric and reflexive:
  for all strings \<open>a\<close>, \<open>b\<close> and \<open>w\<close>, \<open>eqLoose(a, b) = eqLoose(b, a)\<close> and
  \<open>eqLoose(w, w)\<close> is true.
\<close>

theorem C10_eqLoose_symmetric_reflexive:
  "eqLoose a b = eqLoose b a \<and> eqLoose w w"
  using eqLoose_sym [of a b] eqLoose_refl [of w] by simp

theorem C10_witness:
  "eqLoose ''wolves'' ''wolf'' \<and> eqLoose ''wolf'' ''wolves'' \<and> eqLoose ''barked'' ''barked''"
proof -
  have "eqLoose ''wolves'' ''wolf''"
    by (simp add: eqLoose_def irregular_def Let_def)
  then show ?thesis
    using C10_eqLoose_symmetric_reflexive [of "''wolves''" "''wolf''" "''barked''"] by simp
qed

subsection \<open>The cursor\<close>

lemma advance_storyIndex_mono:
  "storyIndex st \<le> storyIndex (fst (advanceStoryWithTranscript text st))"
  by (simp add: advanceStoryWithTranscript_def Let_def split: prod.splits)

text \<open>
  Claim C1. For every story state and every sequence of transcript fragments (final or
  interim, any contents) handed to \<open>advanceStoryWithTranscript\<close>, the cursor
  \<open>storyIndex\<close> after each call is at least its value before the call, also when the
  call recovers through \<open>attemptStoryRecovery\<close>: the list of cursor values along the run
  is sorted.
\<close>

theorem C1_cursor_monotone:
  "storyIndex st \<le> storyIndex (fst (advanceStoryWithTranscript text st)) \<and>
   sorted (map storyIndex (storyTrace texts st))"
proof
  show "storyIndex st \<le> storyIndex (fst (advanceStoryWithTranscript text st))"
    by (rule advance_storyIndex_mono)
  show "sorted (map storyIndex (storyTrace texts st))"
  proof (induction texts arbitrary: st)
    case Nil
    show ?case by simp
  next
    case (Cons t texts)
    let ?st1 = "fst (advanceStoryWithTranscript t st)"
    have step: "storyIndex st \<le> storyIndex ?st1" by (rule advance_storyIndex_mono)
    have rest: "sorted (map storyIndex (storyTrace texts ?st1))" by (rule Cons.IH)
    have hd: "storyTrace texts ?st1 = ?st1 # tl (storyTrace texts ?st1)"
      by (cases texts) simp_all
    from rest have "\<forall>x \<in> set (map storyIndex (storyTrace texts ?st1)). storyIndex ?st1 \<le> x"
      by (subst (asm) hd, subst hd) (auto simp del: storyTrace.simps)
    with step have "\<forall>x \<in> set (map storyIndex (storyTrace texts ?st1)). storyIndex st \<le> x"
      by auto
    with rest show ?case by simp
  qed
qed

text \<open>
  Two runs: the scenario of the specification (story \<open>Once upon a time\<close>, fragments
  \<open>once\<close> and \<open>time\<close>), and a run whose first fragment is placed by recovery, which
  jumps from 0 to 15.
\<close>

theorem C1_witness:
  "map storyIndex (storyTrace [''Once'', ''time'']
     \<lparr>storyActive = True, storyIndex = 0,
      storyNorm = [''once'', [], ''upon'', [], ''a'', [], ''time''], recentSpoken = []\<rparr>) = [0, 1, 2] \<and>
   map storyIndex (storyTrace [''Dog ran away!'', ''the dog ran'', ''away'']
     \<lparr>storyActive = True, storyIndex = 0,
      storyNorm = [''the'', [], ''cat'', [], ''sat'', [], ''on'', [], ''the'', [], ''mat'', [],
                   ''and'', [], ''then'', [], ''the'', [], ''dog'', [], ''ran'', [], ''away''],
      recentSpoken = []\<rparr>) = [0, 15, 21, 23] \<and>
   sorted (map storyIndex (storyTrace [''Dog ran away!'', ''the dog ran'', ''away'']
     \<lparr>storyActive = True, storyIndex = 0,
      storyNorm = [''the'', [], ''cat'', [], ''sat'', [], ''on'', [], ''the'', [], ''mat'', [],
                   ''and'', [], ''then'', [], ''the'', [], ''dog'', [], ''ran'', [], ''away''],
      recentSpoken = []\<rparr>))"
proof -
  let ?a = "\<lparr>storyActive = True, storyIndex = 0,
      storyNorm = [''once'', [], ''upon'', [], ''a'', [], ''time''], recentSpoken = []\<rparr>"
  let ?b = "\<lparr>storyActive = True, storyIndex = 0,
      storyNorm = [''the'', [], ''cat'', [], ''sat'', [], ''on'', [], ''the'', [], ''mat'', [],
                   ''and'', [], ''then'', [], ''the'', [], ''dog'', [], ''ran'', [], ''away''],
      recentSpoken = []\<rparr>"
  have a: "map storyIndex (storyTrace [''Once'', ''time''] ?a) = [0, 1, 2]" by code_simp
  have b: "map storyIndex (storyTrace [''Dog ran away!'', ''the dog ran'', ''away''] ?b) = [0, 15, 21, 23]"
    by code_simp
  from C1_cursor_monotone [of ?b "[]" "[''Dog ran away!'', ''the dog ran'', ''away'']"]
  have "sorted (map storyIndex (storyTrace [''Dog ran away!'', ''the dog ran'', ''away''] ?b))"
    by (rule conjunct2)
  with a b show ?thesis by blast
qed

subsection \<open>A batch whose prefix matches no run of the window\<close>
















lemma nomatch_unmatched:
  assumes "\<not> anyLooseMatch (drop i toks) ws" "ws \<noteq> []"
  shows "unmatchedPrefixWord (take 40 (drop i toks)) ws"
proof -
  from assms(2) have "hd ws \<in> set (take 3 ws)" by (cases ws) simp_all
  moreover have "\<not> list_ex (\<lambda>t. eqLoose t (hd ws)) (take 40 (drop i toks))"
  proof
    assume "list_ex (\<lambda>t. eqLoose t (hd ws)) (take 40 (drop i toks))"
    then obtain t where "t \<in> set (take 40 (drop i toks))" "eqLoose t (hd ws)"
      by (auto simp: list_ex_iff)
    moreover then have "t \<in> set (drop i toks)" by (meson in_set_takeD)
    moreover have "hd ws \<in> set ws" using assms(2) by simp
    ultimately show False using assms(1) by (auto simp: anyLooseMatch_def list_ex_iff)
  qed
  ultimately show ?thesis by (auto simp: unmatchedPrefixWord_def list_ex_iff)
qed







subsection \<open>Frame lemmas of playback\<close>

lemma length_update_le: "length (AList.update k v al) \<le> Suc (length al)"
  by (induction al) auto

lemma playAudio_now:
  "playAudio (e\<lparr>now := t\<rparr>) url options st = playAudio e url options st"
  by (simp add: playAudio_def playMusicElement_def playSFXBuffer_def Let_def)

lemma playAudio_sfx_frame:
  assumes "po_type options = ''sfx''"
  shows "currentMusic (fst (playAudio e url options st)) = currentMusic st \<and>
         sfxCooldowns (fst (playAudio e url options st)) = sfxCooldowns st \<and>
         sfxCooldownMs (fst (playAudio e url options st)) = sfxCooldownMs st \<and>
         length (activeSounds (fst (playAudio e url options st))) \<le> Suc (length (activeSounds st))"
  using assms
  by (simp add: playAudio_def playSFXBuffer_def duckMusic_def Let_def length_update_le)

lemma searchAudio_frame:
  "currentMusic (fst (searchAudio e st)) = currentMusic st \<and>
   sfxCooldowns (fst (searchAudio e st)) = sfxCooldowns st \<and>
   activeSounds (fst (searchAudio e st)) = activeSounds st"
  by (simp add: searchAudio_def)

lemma playSoundEffect_frame:
  "currentMusic (fst (playSoundEffect e q st)) = currentMusic st \<and>
   length (activeSounds (fst (playSoundEffect e q st))) \<le> Suc (length (activeSounds st)) \<and>
   (\<forall>b. b \<noteq> getSfxBucket (sq_query q) \<longrightarrow>
        sfxCooldowns (fst (playSoundEffect e q st)) b = sfxCooldowns st b)"
proof -
  let ?opts = "\<lparr>po_type = ''sfx'', po_name = sq_query q,
                 po_volume = calculateVolume (fst (searchAudio e st)) (orDefault (sq_volume q) (7 / 10)),
                 po_loop = False, po_id = None\<rparr>"
  have t: "po_type ?opts = ''sfx''" by simp
  note pa = playAudio_sfx_frame[OF t, of e _ "fst (searchAudio e st)"]
  note sa = searchAudio_frame[of e st]
  show ?thesis
    using pa sa
    by (auto simp: playSoundEffect_def Let_def split_beta split: option.splits)
qed

lemma playSoundEffect_cooling:
  assumes "sfxCooldowns st (getSfxBucket (sq_query q)) = Some t" "now e < t"
  shows "playSoundEffect e q st = (st, False)"
  using assms by (simp add: playSoundEffect_def Let_def)

lemma playAudio_keeps_cooldown:
  "playAudio e url options st = (st1, played) \<Longrightarrow>
     sfxCooldownMs st1 = sfxCooldownMs st \<and> sfxCooldowns st1 = sfxCooldowns st"
  by (auto simp: playAudio_def playSFXBuffer_def playMusicElement_def duckMusic_def Let_def
           split: if_splits prod.splits option.splits)

lemma playSoundEffectById_started:
  assumes "playSoundEffectById e sfxData st = (st1, True)"
  shows "sfxCooldowns st1 (getSfxBucket (sd_id sfxData)) = Some (nowSet e + sfxCooldownMs st)"
  using assms playAudio_keeps_cooldown
  by (fastforce simp: playSoundEffectById_def Let_def split: if_splits option.splits prod.splits)

lemma playSoundEffectById_in_cooldown:
  assumes "sfxCooldowns st (getSfxBucket (sd_id sfxData)) = Some t" "now e < t"
  shows "playSoundEffectById e sfxData st = (st, False)"
  using assms by (simp add: playSoundEffectById_def Let_def split: option.splits)

lemma updateMusicById_ignores_clock:
  "updateMusicById (e\<lparr>now := t\<rparr>) m st = updateMusicById e m st"
  by (simp add: updateMusicById_def playAudio_now Let_def split: option.splits)

lemma playSoundEffectById_limit:
  assumes "length (activeSounds st) \<le> maxSimultaneousSounds st"
  shows "length (activeSounds (fst (playSoundEffectById e s st))) \<le> maxSimultaneousSounds (fst (playSoundEffectById e s st))"
proof (cases "snd (playSoundEffectById e s st)")
  case False
  have "activeSounds (fst (playSoundEffectById e s st)) = activeSounds st \<or> snd (playSoundEffectById e s st)"
    apply (simp add: playSoundEffectById_def Let_def split_beta split: option.splits)
    apply (simp add: playAudio_def playSFXBuffer_def duckMusic_def Let_def)
    done
  moreover have "maxSimultaneousSounds (fst (playSoundEffectById e s st)) = maxSimultaneousSounds st"
    apply (simp add: playSoundEffectById_def Let_def split_beta split: option.splits)
    apply (simp add: playAudio_def playSFXBuffer_def duckMusic_def Let_def)
    done
  ultimately show ?thesis using False assms by auto
next
  case True
  then have lt: "length (activeSounds st) < maxSimultaneousSounds st"
    by (auto simp: playSoundEffectById_def Let_def split_beta split: option.splits if_splits)
  have "length (activeSounds (fst (playSoundEffectById e s st))) \<le> Suc (length (activeSounds st))"
    apply (simp add: playSoundEffectById_def Let_def split_beta split: option.splits)
    apply (simp add: playAudio_def playSFXBuffer_def duckMusic_def Let_def length_update_le)
    done
  moreover have "maxSimultaneousSounds (fst (playSoundEffectById e s st)) = maxSimultaneousSounds st"
    apply (simp add: playSoundEffectById_def Let_def split_beta split: option.splits)
    apply (simp add: playAudio_def playSFXBuffer_def duckMusic_def Let_def)
    done
  ultimately show ?thesis using lt by simp
qed


text \<open>The definitions unfolded when a worked example is evaluated.\<close>

lemmas example_defs =
  crowdedGame_def demoGame_def catalogLoaded_def initialGame_def togglePrediction_def
  demoCatalog_def envAt_def sfxOf_def musicOf_def

lemmas audio_defs =
  updateMusicById_def playSoundEffectById_def playAudio_def playSFXBuffer_def
  playMusicElement_def duckMusic_def scheduleNextStinger_def soundUrlOf_def startsWith_def
  orDefault_def clamp01_def stingerFire_def searchAudio_def getModeStingers_def
  calculateVolume_def

lemma example_buckets:
  "getSfxBucket ''door_creak'' = ''door''"
  "getSfxBucket ''dog_bark'' = ''dog_bark''"
  "getSfxBucket ''thunder_clap'' = ''thunder''"
  by code_simp+

subsection \<open>Cooldown\<close>

text \<open>
  Two requests of \<open>playSoundEffectById\<close> for the same bucket, taken one after the other:
  when the first starts playback and the second arrives less than \<open>sfxCooldownMs\<close> after
  it, in a state whose entry for the bucket is the one the first play stored, the second
  is skipped and changes nothing. This path stores the cooldown in the same turn of the
  event loop in which it tests it.
\<close>

lemma playSoundEffectById_second_in_window_skipped:
  assumes first: "playSoundEffectById e1 sfx1 st = (st1, True)"
    and same: "getSfxBucket (sd_id sfx2) = getSfxBucket (sd_id sfx1)"
    and later: "sfxCooldowns st2 (getSfxBucket (sd_id sfx1)) = sfxCooldowns st1 (getSfxBucket (sd_id sfx1))"
    and clock: "now e1 \<le> nowSet e1"
    and within: "now e2 < now e1 + sfxCooldownMs st"
  shows "playSoundEffectById e2 sfx2 st2 = (st2, False)"
proof -
  from first have "sfxCooldowns st1 (getSfxBucket (sd_id sfx1)) = Some (nowSet e1 + sfxCooldownMs st)"
    by (rule playSoundEffectById_started)
  with later same have "sfxCooldowns st2 (getSfxBucket (sd_id sfx2)) = Some (nowSet e1 + sfxCooldownMs st)"
    by simp
  moreover from clock within have "now e2 < nowSet e1 + sfxCooldownMs st" by simp
  ultimately show ?thesis by (rule playSoundEffectById_in_cooldown)
qed


lemma playSoundEffectById_second_in_window_example:
  "snd (playSoundEffectById (envAt 1000) (sfxOf ''door_creak'') demoGame) \<and>
   getSfxBucket ''door_slam'' = getSfxBucket ''door_creak'' \<and>
   playSoundEffectById (envAt 3000) (sfxOf ''door_slam'')
       (fst (playSoundEffectById (envAt 1000) (sfxOf ''door_creak'') demoGame)) =
     (fst (playSoundEffectById (envAt 1000) (sfxOf ''door_creak'') demoGame), False)"
proof -
  let ?st1 = "fst (playSoundEffectById (envAt 1000) (sfxOf ''door_creak'') demoGame)"
  have played: "snd (playSoundEffectById (envAt 1000) (sfxOf ''door_creak'') demoGame)"
    by code_simp
  then have first: "playSoundEffectById (envAt 1000) (sfxOf ''door_creak'') demoGame = (?st1, True)"
    by (simp add: prod_eq_iff)
  have same: "getSfxBucket (sd_id (sfxOf ''door_slam'')) = getSfxBucket (sd_id (sfxOf ''door_creak''))"
    by code_simp
  have clock: "now (envAt 1000) \<le> nowSet (envAt 1000)" by code_simp
  have within: "now (envAt 3000) < now (envAt 1000) + sfxCooldownMs demoGame" by code_simp
  from playSoundEffectById_second_in_window_skipped [OF first same refl clock within]
  have "playSoundEffectById (envAt 3000) (sfxOf ''door_slam'') ?st1 = (?st1, False)" .
  with played same show ?thesis by (simp add: sfxOf_def)
qed

text \<open>The two steps of \<open>playSoundEffect\<close>, taken together, are the one-step function.\<close>

lemma playSoundEffect_two_steps:
  "playSoundEffect e sfxData st =
     (case playSoundEffectBegin e sfxData st of
        None \<Rightarrow> (st, False)
      | Some p \<Rightarrow> playSoundEffectResume e p st)"
  by (simp add: playSoundEffect_def playSoundEffectBegin_def playSoundEffectResume_def Let_def
           split: prod.splits option.splits)

lemma playInstantSound_bark:
  "playInstantSound e \<lparr>kw_query = ''dog bark'', kw_volume = 7 / 10\<rparr> st = playSoundEffect e barkCue st"
  by (simp add: playInstantSound_def barkCue_def)

text \<open>
  Claim C4 holds for requests of \<open>playSoundEffectById\<close> (lemma
  \<open>playSoundEffectById_second_in_window_skipped\<close>). It fails for \<open>playSoundEffect\<close>, the
  path of the keyword and story cues, which tests the cooldown before it awaits
  \<open>searchAudio\<close> and stores it only after playback has started; its callers do not wait
  for it. Two requests for the keyword \<open>bark\<close> arrive at 1000 ms and 1100 ms, both map to
  the bucket \<open>dog bark\<close>, and both pass the tests, since no cooldown is stored yet. The
  searches resolve at 1400 ms and 1500 ms: the first request starts playback and stores
  the cooldown 4900, and the second, 100 ms after the first and well inside the window of
  3500 ms, starts playback too and moves the cooldown to 5000. Two plays have occurred.
\<close>

theorem C4_overlapping_requests_both_play:
  "getSfxBucket (sq_query barkCue) = ''dog bark'' \<and>
   playSoundEffectBegin (envAt 1000) barkCue demoGame = Some barkPending \<and>
   playSoundEffectBegin (envAt 1100) barkCue demoGame = Some barkPending \<and>
   snd (playSoundEffectResume (envAt 1400) barkPending demoGame) \<and>
   sfxCooldowns (fst (playSoundEffectResume (envAt 1400) barkPending demoGame)) ''dog bark'' = Some 4900 \<and>
   snd (playSoundEffectResume (envAt 1500) barkPending
          (fst (playSoundEffectResume (envAt 1400) barkPending demoGame))) \<and>
   map (\<lambda>(k, a). (k, as_name a))
     (activeSounds (fst (playSoundEffectResume (envAt 1500) barkPending
          (fst (playSoundEffectResume (envAt 1400) barkPending demoGame))))) =
     [((1400, 0), ''dog bark''), ((1500, 0), ''dog bark'')] \<and>
   sfxCooldowns (fst (playSoundEffectResume (envAt 1500) barkPending
          (fst (playSoundEffectResume (envAt 1400) barkPending demoGame)))) ''dog bark'' = Some 5000"
  by code_simp

subsection \<open>Concurrency limit\<close>

text \<open>
  Claim C6 holds for the music slot, which is a single optional value, and for effects
  started by \<open>playSoundEffectById\<close> (lemma \<open>playSoundEffectById_limit\<close>). It fails for
  stingers: the timer callback plays through \<open>playAudio\<close> without the size check. In
  \<open>crowdedGame\<close> three effects are active, which is the maximum; when the stinger timer
  fires a second later, a fourth effect starts.
\<close>

theorem C6_stinger_bypasses_limit:
  "maxSimultaneousSounds crowdedGame = 3 \<and>
   length (activeSounds crowdedGame) = 3 \<and>
   stingerTimer crowdedGame \<and>
   length (activeSounds (stingerFire (envAt 30000) crowdedGame)) = 4 \<and>
   maxSimultaneousSounds (stingerFire (envAt 30000) crowdedGame) = 3"
  by (simp add: example_defs audio_defs example_buckets Let_def)

subsection \<open>Music changes\<close>

text \<open>
  Claim C2 fails on \<open>updateMusicById\<close>, which keeps no time of the last change and does
  not read the clock (lemma \<open>updateMusicById_ignores_clock\<close>). In the scenario
  calm, peaceful, epic within 10 seconds, with no force flag (every action is
  \<open>play_or_continue\<close>), the second transition takes place 5 seconds after the first.
\<close>

theorem C2_second_change_not_blocked:
  "map_option mu_name (currentMusic (applyMusicDecisions (envAt 0)
      [(0, musicOf ''calm_meadow'' ''play_or_continue''),
       (4000, musicOf ''peaceful_village'' ''play_or_continue'')] demoGame)) =
     Some ''peaceful_village'' \<and>
   map_option mu_name (currentMusic (applyMusicDecisions (envAt 0)
      [(0, musicOf ''calm_meadow'' ''play_or_continue''),
       (4000, musicOf ''peaceful_village'' ''play_or_continue''),
       (9000, musicOf ''epic_battle'' ''play_or_continue'')] demoGame)) =
     Some ''epic_battle''"
  by code_simp

subsection \<open>Preload tasks\<close>

lemma taskStep_audible: "audible (snd (taskStep found cached decoded task st)) = audible st"
proof (cases task)
  case (Pair v ph)
  then show ?thesis
    by (cases ph) (auto simp: audible_def Let_def split: option.splits)
qed

lemma taskStep_version: "preloadVersion (snd (taskStep found cached decoded task st)) = preloadVersion st"
proof (cases task)
  case (Pair v ph)
  then show ?thesis
    by (cases ph) (auto simp: Let_def split: option.splits)
qed

lemma taskStep_stale:
  "v \<noteq> preloadVersion st \<Longrightarrow> taskStep found cached decoded (v, Pending q) st = ((v, Finished), st)"
  by simp

lemma preload_tasks_pending:
  "task \<in> set (snd (preloadSfxForCurrentMode v st)) \<Longrightarrow> \<exists>q. task = (v, Pending q)"
  by (auto simp: preloadSfxForCurrentMode_def Let_def split: if_splits)

lemma preload_audible: "audible (fst (preloadSfxForCurrentMode v st)) = audible st"
  by (simp add: preloadSfxForCurrentMode_def Let_def audible_def)

lemma preload_version: "preloadVersion (fst (preloadSfxForCurrentMode v st)) = preloadVersion st"
  by (simp add: preloadSfxForCurrentMode_def Let_def)

lemma applyEvent_task_audible:
  "isTaskStep ev \<Longrightarrow> audible (fst (applyEvent ev c)) = audible (fst c)"
proof (cases ev)
  case (TaskStep k found cached decoded)
  obtain st pool where c: "c = (st, pool)" by (cases c)
  show ?thesis
  proof (cases "k < length pool")
    case True
    have "audible (snd (taskStep found cached decoded (pool ! k) st)) = audible st"
      by (rule taskStep_audible)
    with True TaskStep c show ?thesis by (simp add: split_beta)
  next
    case False
    with TaskStep c show ?thesis by simp
  qed
qed simp_all

lemma applyEvent_other_audible:
  assumes "\<not> isTaskStep ev" "audible (fst c) = audible (fst c')"
  shows "audible (fst (applyEvent ev c)) = audible (fst (applyEvent ev c'))"
proof -
  obtain st pool where c: "c = (st, pool)" by (cases c)
  obtain st' pool' where c': "c' = (st', pool')" by (cases c')
  show ?thesis
  proof (cases ev)
    case (SelectMode mode)
    with c c' show ?thesis by (simp add: selectMode_def stopAllAudio_def audible_def Let_def)
  next
    case ListenBump
    with c c' assms(2) show ?thesis by (simp add: audible_def)
  next
    case (StartPreload v)
    have "audible (fst (preloadSfxForCurrentMode v st)) = audible st"
      "audible (fst (preloadSfxForCurrentMode v st')) = audible st'"
      by (rule preload_audible)+
    with StartPreload c c' assms(2) show ?thesis by (simp add: split_beta)
  next
    case PreloadSettled
    with c c' assms(2) show ?thesis by (simp add: audible_def)
  next
    case (TaskStep k found cached decoded)
    with assms(1) show ?thesis by simp
  qed
qed

lemma runEvents_audible:
  "audible (fst c) = audible (fst c') \<Longrightarrow>
   audible (fst (runEvents evs c)) = audible (fst (runEvents (filter (\<lambda>ev. \<not> isTaskStep ev) evs) c'))"
proof (induction evs arbitrary: c c')
  case Nil
  then show ?case by simp
next
  case (Cons ev evs)
  show ?case
  proof (cases "isTaskStep ev")
    case True
    then have "audible (fst (applyEvent ev c)) = audible (fst c')"
      using Cons.prems by (simp add: applyEvent_task_audible)
    from Cons.IH[OF this] True show ?thesis by simp
  next
    case False
    then have "audible (fst (applyEvent ev c)) = audible (fst (applyEvent ev c'))"
      using Cons.prems by (rule applyEvent_other_audible)
    from Cons.IH[OF this] False show ?thesis by simp
  qed
qed

lemma applyEvent_version_mono: "preloadVersion (fst c) \<le> preloadVersion (fst (applyEvent ev c))"
proof -
  obtain st pool where c: "c = (st, pool)" by (cases c)
  show ?thesis
  proof (cases ev)
    case (SelectMode mode)
    with c show ?thesis by (simp add: selectMode_def stopAllAudio_def Let_def)
  next
    case (StartPreload v)
    with c preload_version[of v st] show ?thesis by (simp add: split_beta)
  next
    case (TaskStep k found cached decoded)
    with c taskStep_version[of found cached decoded "pool ! k" st] show ?thesis
      by (simp add: split_beta)
  qed (simp_all add: c)
qed

lemma applyEvent_bump_strict:
  "isBump ev \<Longrightarrow> preloadVersion (fst c) < preloadVersion (fst (applyEvent ev c))"
  by (cases ev; cases c) (simp_all add: selectMode_def stopAllAudio_def Let_def)

lemma runEvents_version_mono: "preloadVersion (fst c) \<le> preloadVersion (fst (runEvents evs c))"
proof (induction evs arbitrary: c)
  case Nil
  show ?case by simp
next
  case (Cons ev evs)
  have "preloadVersion (fst c) \<le> preloadVersion (fst (applyEvent ev c))"
    by (rule applyEvent_version_mono)
  also have "\<dots> \<le> preloadVersion (fst (runEvents evs (applyEvent ev c)))" by (rule Cons.IH)
  finally show ?case by simp
qed

lemma runEvents_bump_strict:
  "list_ex isBump evs \<Longrightarrow> preloadVersion (fst c) < preloadVersion (fst (runEvents evs c))"
proof (induction evs arbitrary: c)
  case Nil
  then show ?case by simp
next
  case (Cons ev evs)
  show ?case
  proof (cases "isBump ev")
    case True
    then have "preloadVersion (fst c) < preloadVersion (fst (applyEvent ev c))"
      by (rule applyEvent_bump_strict)
    also have "\<dots> \<le> preloadVersion (fst (runEvents evs (applyEvent ev c)))"
      by (rule runEvents_version_mono)
    finally show ?thesis by simp
  next
    case False
    with Cons.prems have "list_ex isBump evs" by simp
    from Cons.IH[OF this] have "preloadVersion (fst (applyEvent ev c)) < preloadVersion (fst (runEvents evs (applyEvent ev c)))" .
    with applyEvent_version_mono[of c ev] show ?thesis by simp
  qed
qed

text \<open>
  Claim C5. A task created by \<open>preloadSfxForCurrentMode\<close> carries its version token
  \<open>v\<close>, taken from the epoch counter. If the epoch is incremented (by \<open>selectMode\<close> or
  otherwise) after that and before the task runs, the task ends at once and changes
  nothing. And for every interleaving of mode changes, bumps, preload starts and task
  steps, the audible state (the music slot and the active sounds) at the end is the one
  reached without the task steps: a task writes at most the URL cache and the buffer
  cache.
\<close>

theorem C5_stale_task_changes_nothing_audible:
  assumes created: "task \<in> set (snd (preloadSfxForCurrentMode v st0))"
    and token: "v \<le> preloadVersion (fst c)"
    and bumped: "list_ex isBump before"
  shows "taskStep found cached decoded task (fst (runEvents before c)) =
           ((v, Finished), fst (runEvents before c)) \<and>
         audible (fst (runEvents evs c)) =
           audible (fst (runEvents (filter (\<lambda>ev. \<not> isTaskStep ev) evs) c))"
proof
  from created obtain q where task: "task = (v, Pending q)"
    using preload_tasks_pending by blast
  from bumped have "preloadVersion (fst c) < preloadVersion (fst (runEvents before c))"
    by (rule runEvents_bump_strict)
  with token have "v \<noteq> preloadVersion (fst (runEvents before c))" by simp
  then show "taskStep found cached decoded task (fst (runEvents before c)) =
           ((v, Finished), fst (runEvents before c))"
    unfolding task by (rule taskStep_stale)
  show "audible (fst (runEvents evs c)) =
           audible (fst (runEvents (filter (\<lambda>ev. \<not> isTaskStep ev) evs) c))"
    by (rule runEvents_audible) simp
qed


theorem C5_witness:
  "(1, Pending ''dog bark'') \<in> set (snd (preloadSfxForCurrentMode 1 (selectMode ''bedtime'' demoGame))) \<and>
   list_ex isBump [SelectMode ''horror''] \<and>
   fst (taskStep (Some ''u'') [] True (1, Pending ''dog bark'')
     (fst (runEvents [SelectMode ''horror''] (selectMode ''bedtime'' demoGame, [])))) = (1, Finished) \<and>
   audible (fst (runEvents [TaskStep 0 None [] False, TaskStep 0 (Some ''u'') [(''sfx:door creak'', ''u'')] False,
                            TaskStep 0 None [] True]
                   (crowdedGame, [(0, Pending ''door creak'')]))) = audible crowdedGame"
proof -
  let ?c = "(selectMode ''bedtime'' demoGame, [])"
  have created: "(1, Pending ''dog bark'') \<in> set (snd (preloadSfxForCurrentMode 1 (selectMode ''bedtime'' demoGame)))"
    by code_simp
  have token: "1 \<le> preloadVersion (fst ?c)" by code_simp
  have bumped: "list_ex isBump [SelectMode ''horror'']" by simp
  note inst = C5_stale_task_changes_nothing_audible [OF created token bumped]
  from inst [of "Some ''u''" "[]" True "[]"]
  have a: "fst (taskStep (Some ''u'') [] True (1, Pending ''dog bark'')
     (fst (runEvents [SelectMode ''horror''] ?c))) = (1, Finished)"
    by simp
  have created0: "(0, Pending ''door creak'') \<in> set (snd (preloadSfxForCurrentMode 0 demoGame))"
    by code_simp
  have token0: "0 \<le> preloadVersion (fst (crowdedGame, [(0, Pending ''door creak'')]))" by simp
  from C5_stale_task_changes_nothing_audible [OF created0 token0 bumped,
    of None "[]" False
       "[TaskStep 0 None [] False, TaskStep 0 (Some ''u'') [(''sfx:door creak'', ''u'')] False,
         TaskStep 0 None [] True]"]
  have b: "audible (fst (runEvents [TaskStep 0 None [] False,
                   TaskStep 0 (Some ''u'') [(''sfx:door creak'', ''u'')] False, TaskStep 0 None [] True]
                   (crowdedGame, [(0, Pending ''door creak'')]))) = audible crowdedGame"
    by simp
  from created bumped a b show ?thesis by blast
qed

subsection \<open>Keyword cues\<close>

lemma isWordChar_toLowerChar: "isWordChar (toLowerChar c) = isWordChar c"
  by (auto simp: toLowerChar_def isWordChar_def split: option.splits if_splits)

lemma toLowerCase_length: "toLowerCase a = toLowerCase b \<Longrightarrow> length a = length b"
  by (metis length_map toLowerCase_def)

lemma toLowerCase_hd:
  assumes "toLowerCase a = toLowerCase b" "b \<noteq> []"
  shows "isWordChar (hd a) = isWordChar (hd b)"
proof -
  from assms have "a \<noteq> []" using toLowerCase_length by fastforce
  with assms have "toLowerChar (hd a) = toLowerChar (hd b)"
    by (metis hd_map toLowerCase_def)
  then show ?thesis by (metis isWordChar_toLowerChar)
qed

lemma toLowerCase_last:
  assumes "toLowerCase a = toLowerCase b" "b \<noteq> []"
  shows "isWordChar (last a) = isWordChar (last b)"
proof -
  from assms have "a \<noteq> []" using toLowerCase_length by fastforce
  with assms have "toLowerChar (last a) = toLowerChar (last b)"
    by (metis last_map toLowerCase_def)
  then show ?thesis by (metis isWordChar_toLowerChar)
qed

lemma matchesAt_decomposition:
  assumes kw: "plainKeyword keyword"
    and s: "s = pre @ mid @ post"
    and mid: "toLowerCase mid = toLowerCase keyword"
  shows "matchesAt keyword s (length pre) =
           ((pre = [] \<or> \<not> isWordChar (last pre)) \<and> (post = [] \<or> \<not> isWordChar (hd post)))"
proof -
  from kw have ne: "keyword \<noteq> []" and wh: "isWordChar (hd keyword)" and wl: "isWordChar (last keyword)"
    by (simp_all add: plainKeyword_def)
  from mid have len: "length mid = length keyword" by (rule toLowerCase_length)
  with ne have mne: "mid \<noteq> []" by auto
  have mh: "isWordChar (hd mid)" using toLowerCase_hd[OF mid ne] wh by simp
  have ml: "isWordChar (last mid)" using toLowerCase_last[OF mid ne] wl by simp
  have at_p: "s ! length pre = hd mid" using s mne by (simp add: nth_append hd_conv_nth)
  have before_p: "0 < length pre \<Longrightarrow> s ! (length pre - 1) = last pre"
    using s by (simp add: nth_append last_conv_nth)
  have b1: "boundaryAt s (length pre) = (pre = [] \<or> \<not> isWordChar (last pre))"
  proof -
    have "length pre < length s" using s mne by simp
    then show ?thesis
      using at_p mh before_p by (cases "pre = []") (auto simp: boundaryAt_def)
  qed
  let ?q = "length pre + length keyword"
  have q_le: "?q \<le> length s" using s len by simp
  have before_q: "s ! (?q - 1) = last mid"
  proof -
    have "?q - 1 = length pre + (length mid - 1)" using len mne by (cases mid) auto
    then show ?thesis using s mne by (simp add: nth_append last_conv_nth)
  qed
  have at_q: "post \<noteq> [] \<Longrightarrow> s ! ?q = hd post"
    using s len by (simp add: nth_append hd_conv_nth)
  have q_lt: "(?q < length s) = (post \<noteq> [])" using s len by auto
  have b2: "boundaryAt s ?q = (post = [] \<or> \<not> isWordChar (hd post))"
  proof -
    have "0 < ?q" using ne by simp
    then show ?thesis
      using q_le before_q ml at_q q_lt by (cases "post = []") (auto simp: boundaryAt_def)
  qed
  have tk: "take (length keyword) (drop (length pre) s) = mid" using s len by simp
  show ?thesis
    unfolding matchesAt_def using b1 b2 q_le tk mid by simp
qed

lemma wordRegexTest_iff_wholeWord:
  assumes "plainKeyword keyword"
  shows "wordRegexTest keyword s = wholeWordOccurrence keyword s"
proof
  assume "wordRegexTest keyword s"
  then obtain p where p0: "p \<in> set [0..<Suc (length s)]" and pm: "matchesAt keyword s p"
    unfolding wordRegexTest_def list_ex_iff by blast
  from p0 have "p \<le> length s" by auto
  note p = this pm
  let ?pre = "take p s" and ?mid = "take (length keyword) (drop p s)"
    and ?post = "drop (p + length keyword) s"
  have s: "s = ?pre @ ?mid @ ?post"
    by (metis append_take_drop_id drop_drop add.commute)
  from p(2) have mid: "toLowerCase ?mid = toLowerCase keyword" by (simp add: matchesAt_def)
  have lp: "length ?pre = p" using p(1) by simp
  from matchesAt_decomposition[OF assms s mid] p(2) lp
  have "(?pre = [] \<or> \<not> isWordChar (last ?pre)) \<and> (?post = [] \<or> \<not> isWordChar (hd ?post))"
    by simp
  with s mid show "wholeWordOccurrence keyword s"
    unfolding wholeWordOccurrence_def by blast
next
  assume "wholeWordOccurrence keyword s"
  then obtain pre mid post where d: "s = pre @ mid @ post" "toLowerCase mid = toLowerCase keyword"
    "(pre = [] \<or> \<not> isWordChar (last pre)) \<and> (post = [] \<or> \<not> isWordChar (hd post))"
    unfolding wholeWordOccurrence_def by blast
  from matchesAt_decomposition[OF assms d(1,2)] d(3)
  have "matchesAt keyword s (length pre)" by simp
  moreover have "length pre \<in> set [0..<Suc (length s)]" using d(1) by simp
  ultimately show "wordRegexTest keyword s"
    unfolding wordRegexTest_def list_ex_iff by blast
qed

lemma table_plain: "list_all (\<lambda>(keyword, config). plainKeyword keyword) instantKeywords"
  by code_simp

lemma find_cong_set: "(\<And>x. x \<in> set xs \<Longrightarrow> P x = Q x) \<Longrightarrow> find P xs = find Q xs"
  by (induction xs) auto

lemma firstKeyword_wholeWord:
  "firstKeyword text =
     find (\<lambda>(keyword, config). wholeWordOccurrence keyword (toLowerCase text)) instantKeywords"
  unfolding firstKeyword_def
proof (rule find_cong_set)
  fix x assume "x \<in> set instantKeywords"
  with table_plain have "plainKeyword (fst x)"
    by (auto simp: list_all_iff)
  then show "(case x of (keyword, config) \<Rightarrow> wordRegexTest keyword (toLowerCase text)) =
             (case x of (keyword, config) \<Rightarrow> wholeWordOccurrence keyword (toLowerCase text))"
    by (cases x) (simp add: wordRegexTest_iff_wholeWord)
qed


lemma toLowerChar_idem: "toLowerChar (toLowerChar c) = toLowerChar c"
  by (auto simp: toLowerChar_def split: option.splits if_splits)

lemma toLowerCase_idem: "toLowerCase (toLowerCase s) = toLowerCase s"
  by (simp add: toLowerCase_def toLowerChar_idem)

lemma wholeWordOccurrence_lower:
  "wholeWordOccurrence keyword (toLowerCase s) = wholeWordOccurrence keyword s"
proof
  assume "wholeWordOccurrence keyword (toLowerCase s)"
  then obtain pre mid post where d: "toLowerCase s = pre @ mid @ post"
    "toLowerCase mid = toLowerCase keyword"
    "pre = [] \<or> \<not> isWordChar (last pre)" "post = [] \<or> \<not> isWordChar (hd post)"
    unfolding wholeWordOccurrence_def by blast
  from d(1) obtain a r where a: "s = a @ r" "pre = toLowerCase a" "mid @ post = toLowerCase r"
    unfolding toLowerCase_def by (metis map_eq_append_conv)
  from a(3) obtain b c where b: "r = b @ c" "mid = toLowerCase b" "post = toLowerCase c"
    unfolding toLowerCase_def by (metis map_eq_append_conv)
  have "toLowerCase b = toLowerCase keyword" using d(2) b(2) by (simp add: toLowerCase_idem)
  moreover have "a = [] \<or> \<not> isWordChar (last a)"
    using d(3) a(2) by (cases "a = []") (simp_all add: toLowerCase_def last_map isWordChar_toLowerChar)
  moreover have "c = [] \<or> \<not> isWordChar (hd c)"
    using d(4) b(3) by (cases "c = []") (simp_all add: toLowerCase_def hd_map isWordChar_toLowerChar)
  moreover have "s = a @ b @ c" using a(1) b(1) by simp
  ultimately show "wholeWordOccurrence keyword s"
    unfolding wholeWordOccurrence_def by blast
next
  assume "wholeWordOccurrence keyword s"
  then obtain pre mid post where d: "s = pre @ mid @ post"
    "toLowerCase mid = toLowerCase keyword"
    "pre = [] \<or> \<not> isWordChar (last pre)" "post = [] \<or> \<not> isWordChar (hd post)"
    unfolding wholeWordOccurrence_def by blast
  have "toLowerCase s = toLowerCase pre @ toLowerCase mid @ toLowerCase post"
    using d(1) by (simp add: toLowerCase_def)
  moreover have "toLowerCase (toLowerCase mid) = toLowerCase keyword"
    using d(2) by (simp add: toLowerCase_idem)
  moreover have "toLowerCase pre = [] \<or> \<not> isWordChar (last (toLowerCase pre))"
    using d(3) by (cases "pre = []") (simp_all add: toLowerCase_def last_map isWordChar_toLowerChar)
  moreover have "toLowerCase post = [] \<or> \<not> isWordChar (hd (toLowerCase post))"
    using d(4) by (cases "post = []") (simp_all add: toLowerCase_def hd_map isWordChar_toLowerChar)
  ultimately show "wholeWordOccurrence keyword (toLowerCase s)"
    unfolding wholeWordOccurrence_def by blast
qed

lemma firstKeyword_any_case:
  "firstKeyword text =
     find (\<lambda>(keyword, config). wholeWordOccurrence keyword text) instantKeywords"
  by (simp add: firstKeyword_wholeWord wholeWordOccurrence_lower)

lemma fk_barked: "firstKeyword ''the dog barked suddenly'' = None"
  by code_simp

lemma fk_bark: "firstKeyword ''The dog will BARK suddenly'' = Some (''bark'', \<lparr>kw_query = ''dog bark'', kw_volume = 7 / 10\<rparr>)"
  by code_simp

text \<open>
  Claim C7, as stated, fails: the table holds \<open>bark\<close> with the query \<open>dog bark\<close>, the
  gate is open, and the fragment \<open>the dog barked suddenly\<close> gives no candidate, since
  \<open>bark\<close> is followed by a letter there.
\<close>

theorem C7_counterexample:
  "map_of instantKeywords ''bark'' = Some \<lparr>kw_query = ''dog bark'', kw_volume = 7 / 10\<rparr> \<and>
   gatesOpen demoGame \<and>
   snd (checkInstantKeywords (envAt 5) ''the dog barked suddenly'' demoGame) = None"
  by code_simp

text \<open>
  Claim C7, amended. With the table entry \<open>bark\<close> to \<open>dog bark\<close>, the fragment
  \<open>the dog barked suddenly\<close> produces no candidate and leaves the state unchanged, since
  no keyword of the table is a whole word of it; a fragment in which \<open>bark\<close> stands as a
  whole word, in any letter case, such as \<open>The dog will BARK suddenly\<close>, produces exactly
  one candidate, with the query \<open>dog bark\<close>, when an audio API key is set and effects
  are enabled. Matching is case-insensitive on whole-word boundaries against the table:
  with the gate open, the candidate of a non-empty fragment is the entry of the first
  keyword, in table order, that occurs in the fragment as a whole word, if there is one.
\<close>

theorem C7_whole_word_matching:
  "checkInstantKeywords e ''the dog barked suddenly'' st = (st, None) \<and>
   (gatesOpen st \<longrightarrow>
      snd (checkInstantKeywords e ''The dog will BARK suddenly'' st) =
        Some \<lparr>kw_query = ''dog bark'', kw_volume = 7 / 10\<rparr>) \<and>
   (gatesOpen st \<and> text \<noteq> [] \<longrightarrow>
      snd (checkInstantKeywords e text st) =
        map_option snd
          (find (\<lambda>(keyword, config). wholeWordOccurrence keyword text) instantKeywords))"
proof -
  have a: "checkInstantKeywords e ''the dog barked suddenly'' st = (st, None)"
    by (simp add: checkInstantKeywords_def fk_barked)
  have b: "gatesOpen st \<longrightarrow>
      snd (checkInstantKeywords e ''The dog will BARK suddenly'' st) =
        Some \<lparr>kw_query = ''dog bark'', kw_volume = 7 / 10\<rparr>"
    by (simp add: checkInstantKeywords_def fk_bark gatesOpen_def)
  have "gatesOpen st \<and> text \<noteq> [] \<longrightarrow>
      snd (checkInstantKeywords e text st) = map_option snd (firstKeyword text)"
    by (auto simp: checkInstantKeywords_def gatesOpen_def split: option.splits)
  then have c: "gatesOpen st \<and> text \<noteq> [] \<longrightarrow>
      snd (checkInstantKeywords e text st) =
        map_option snd
          (find (\<lambda>(keyword, config). wholeWordOccurrence keyword text) instantKeywords)"
    by (simp add: firstKeyword_any_case)
  from a b c show ?thesis by blast
qed

theorem C7_witness:
  "gatesOpen demoGame \<and>
   snd (checkInstantKeywords (envAt 5) ''The dog will BARK suddenly'' demoGame) =
     Some \<lparr>kw_query = ''dog bark'', kw_volume = 7 / 10\<rparr> \<and>
   checkInstantKeywords (envAt 5) ''the dog barked suddenly'' demoGame = (demoGame, None)"
proof -
  have g: "gatesOpen demoGame" by code_simp
  with C7_whole_word_matching [of "envAt 5" demoGame "''The dog will BARK suddenly''"]
  show ?thesis by simp
qed

text \<open>
  Claim C8, as stated, fails: the extractor dispatches the candidate itself. One call
  with the fragment \<open>a loud bang\<close> on a silent state starts an effect and sets the
  cooldown of its bucket.
\<close>

theorem C8_counterexample:
  "activeSounds demoGame = [] \<and>
   sfxCooldowns demoGame ''gunshot explosion'' = None \<and>
   map fst (activeSounds (fst (checkInstantKeywords (envAt 5) ''a loud bang'' demoGame))) = [(5, 0)] \<and>
   sfxCooldowns (fst (checkInstantKeywords (envAt 5) ''a loud bang'' demoGame)) ''gunshot explosion'' =
     Some 3505"
  by code_simp

text \<open>
  Claim C8, amended. For every fragment, which candidate is chosen is a function of the
  fragment and the static table alone, once the extractor's own gate is open (an audio
  API key is set, effects are enabled, the fragment is not empty); there is at most one.
  The extractor does not return the candidate: it dispatches it through
  \<open>playInstantSound\<close> into \<open>playSoundEffect\<close>, where the concurrency and cooldown gates
  are applied. So a call may start one effect and set the cooldown of the candidate's
  bucket; it never touches the music slot, adds at most one active sound, changes
  nothing when there is no candidate, and changes nothing when the candidate's bucket is
  cooling down.
\<close>

theorem C8_extractor_dispatches_candidate:
  "snd (checkInstantKeywords e text st) =
     (if gatesOpen st \<and> text \<noteq> [] then map_option snd (firstKeyword text) else None) \<and>
   fst (checkInstantKeywords e text st) =
     (case snd (checkInstantKeywords e text st) of
        None \<Rightarrow> st
      | Some config \<Rightarrow>
          fst (playSoundEffect e \<lparr>sq_query = kw_query config, sq_priority = 10,
                                  sq_volume = Some (kw_volume config)\<rparr> st)) \<and>
   currentMusic (fst (checkInstantKeywords e text st)) = currentMusic st \<and>
   length (activeSounds (fst (checkInstantKeywords e text st))) \<le> Suc (length (activeSounds st)) \<and>
   (\<forall>config t. snd (checkInstantKeywords e text st) = Some config \<and>
        sfxCooldowns st (getSfxBucket (kw_query config)) = Some t \<and> now e < t \<longrightarrow>
        fst (checkInstantKeywords e text st) = st)"
proof -
  have cand: "snd (checkInstantKeywords e text st) =
     (if gatesOpen st \<and> text \<noteq> [] then map_option snd (firstKeyword text) else None)"
    by (auto simp: checkInstantKeywords_def gatesOpen_def split: option.splits)
  have disp: "fst (checkInstantKeywords e text st) =
     (case snd (checkInstantKeywords e text st) of
        None \<Rightarrow> st
      | Some config \<Rightarrow>
          fst (playSoundEffect e \<lparr>sq_query = kw_query config, sq_priority = 10,
                                  sq_volume = Some (kw_volume config)\<rparr> st))"
    by (auto simp: checkInstantKeywords_def playInstantSound_def split: option.splits)
  have music: "currentMusic (fst (checkInstantKeywords e text st)) = currentMusic st"
    unfolding disp using playSoundEffect_frame by (simp split: option.splits)
  have size: "length (activeSounds (fst (checkInstantKeywords e text st))) \<le> Suc (length (activeSounds st))"
    unfolding disp using playSoundEffect_frame by (simp split: option.splits)
  have cool: "\<forall>config t. snd (checkInstantKeywords e text st) = Some config \<and>
        sfxCooldowns st (getSfxBucket (kw_query config)) = Some t \<and> now e < t \<longrightarrow>
        fst (checkInstantKeywords e text st) = st"
  proof (intro allI impI)
    fix config t
    assume a: "snd (checkInstantKeywords e text st) = Some config \<and>
        sfxCooldowns st (getSfxBucket (kw_query config)) = Some t \<and> now e < t"
    let ?q = "\<lparr>sq_query = kw_query config, sq_priority = 10, sq_volume = Some (kw_volume config)\<rparr>"
    from a have "playSoundEffect e ?q st = (st, False)"
      by (intro playSoundEffect_cooling[of st ?q t]) simp_all
    with a show "fst (checkInstantKeywords e text st) = st"
      by (subst disp) simp
  qed
  from cand disp music size cool show ?thesis by blast
qed


theorem C8_witness:
  "snd (checkInstantKeywords (envAt 4000) ''a loud bang''
          (fst (checkInstantKeywords (envAt 5) ''a loud bang'' demoGame))) =
     Some \<lparr>kw_query = ''gunshot explosion'', kw_volume = 9 / 10\<rparr> \<and>
   sfxCooldowns (fst (checkInstantKeywords (envAt 5) ''a loud bang'' demoGame))
     (getSfxBucket ''gunshot explosion'') = Some 3505 \<and>
   fst (checkInstantKeywords (envAt 3000) ''a loud bang''
          (fst (checkInstantKeywords (envAt 5) ''a loud bang'' demoGame))) =
     fst (checkInstantKeywords (envAt 5) ''a loud bang'' demoGame)"
proof -
  let ?st1 = "fst (checkInstantKeywords (envAt 5) ''a loud bang'' demoGame)"
  let ?cfg = "\<lparr>kw_query = ''gunshot explosion'', kw_volume = 9 / 10\<rparr>"
  have fk: "firstKeyword ''a loud bang'' = Some (''bang'', ?cfg)" by code_simp
  have g: "gatesOpen ?st1" by code_simp
  have cool: "sfxCooldowns ?st1 (getSfxBucket ''gunshot explosion'') = Some 3505" by code_simp
  have c1: "snd (checkInstantKeywords (envAt 4000) ''a loud bang'' ?st1) = Some ?cfg"
    using C8_extractor_dispatches_candidate [of "envAt 4000" "''a loud bang''" ?st1] g fk by simp
  have c2: "snd (checkInstantKeywords (envAt 3000) ''a loud bang'' ?st1) = Some ?cfg"
    using C8_extractor_dispatches_candidate [of "envAt 3000" "''a loud bang''" ?st1] g fk by simp
  have n: "now (envAt 3000) < 3505" by code_simp
  from C8_extractor_dispatches_candidate [of "envAt 3000" "''a loud bang''" ?st1] c2 cool n
  have "fst (checkInstantKeywords (envAt 3000) ''a loud bang'' ?st1) = ?st1"
    by (metis keywordConfig.select_convs(1))
  with c1 cool show ?thesis by simp
qed

subsection \<open>Unknown ids\<close>

lemma inCatalog_find:
  "\<not> inCatalog catalog i \<Longrightarrow> find (\<lambda>s. sound_id s = i) catalog = None"
  by (simp add: inCatalog_def)

lemma validate_sfx:
  "dec_sfx (validateDecision catalog d) = Some l \<Longrightarrow> s \<in> set l \<Longrightarrow> inCatalog catalog (sd_id s)"
  by (auto simp: validateDecision_def Let_def split: option.splits if_splits)

lemma validate_sfx_some: "\<exists>l. dec_sfx (validateDecision catalog d) = Some l"
  by (simp add: validateDecision_def Let_def)

lemma validate_music:
  "dec_music (validateDecision catalog d) = Some m \<Longrightarrow> md_id m = [] \<or> inCatalog catalog (md_id m)"
  by (auto simp: validateDecision_def Let_def split: option.splits if_splits)

text \<open>
  Claim C9, as stated, fails on the server: a music decision whose id is the empty string
  is not in the catalog, and the validation leaves it in the response.
\<close>

theorem C9_counterexample:
  "\<not> inCatalog demoCatalog [] \<and>
   dec_music (validateDecision demoCatalog
      \<lparr>dec_scene = ''storm'',
       dec_music = Some \<lparr>md_id = [], md_action = ''change'', md_volume = None\<rparr>,
       dec_sfx = None\<rparr>) =
     Some \<lparr>md_id = [], md_action = ''change'', md_volume = None\<rparr>"
  by code_simp

text \<open>
  Claim C9, amended. On the client, a music or effect decision whose id is not in the
  loaded catalog is dropped at the catalog lookup: \<open>updateMusicById\<close> and
  \<open>playSoundEffectById\<close> leave the state unchanged and start no playback. On the server,
  the validation removes every effect decision with an unknown id and sets to \<open>null\<close>
  every music decision whose id is non-empty and unknown; a music decision with an empty
  id passes the server as it is.
\<close>

theorem C9_unknown_ids_dropped:
  "(\<not> inCatalog (soundCatalog st) (md_id m) \<longrightarrow> updateMusicById e m st = st) \<and>
   (\<not> inCatalog (soundCatalog st) (sd_id s) \<longrightarrow> playSoundEffectById e s st = (st, False)) \<and>
   (\<exists>l. dec_sfx (validateDecision catalog d) = Some l \<and> (\<forall>x \<in> set l. inCatalog catalog (sd_id x))) \<and>
   (\<forall>x. dec_music (validateDecision catalog d) = Some x \<longrightarrow> md_id x = [] \<or> inCatalog catalog (md_id x))"
proof -
  have a: "\<not> inCatalog (soundCatalog st) (md_id m) \<longrightarrow> updateMusicById e m st = st"
    by (simp add: updateMusicById_def inCatalog_def)
  have b: "\<not> inCatalog (soundCatalog st) (sd_id s) \<longrightarrow> playSoundEffectById e s st = (st, False)"
    by (simp add: playSoundEffectById_def inCatalog_def)
  obtain l where l: "dec_sfx (validateDecision catalog d) = Some l" using validate_sfx_some by blast
  then have c: "\<exists>l. dec_sfx (validateDecision catalog d) = Some l \<and> (\<forall>x \<in> set l. inCatalog catalog (sd_id x))"
    using validate_sfx by blast
  have dd: "\<forall>x. dec_music (validateDecision catalog d) = Some x \<longrightarrow> md_id x = [] \<or> inCatalog catalog (md_id x)"
    using validate_music by blast
  from a b c dd show ?thesis by blast
qed


theorem C9_witness:
  "\<not> inCatalog (soundCatalog demoGame) ''dragon_roar'' \<and>
   updateMusicById (envAt 7) (musicOf ''dragon_roar'' ''change'') demoGame = demoGame \<and>
   playSoundEffectById (envAt 7) (sfxOf ''dragon_roar'') demoGame = (demoGame, False) \<and>
   dec_sfx (validateDecision demoCatalog
      \<lparr>dec_scene = ''storm'', dec_music = Some (musicOf ''dragon_roar'' ''change''),
       dec_sfx = Some [sfxOf ''dragon_roar'', sfxOf ''dog_bark'']\<rparr>) = Some [sfxOf ''dog_bark''] \<and>
   dec_music (validateDecision demoCatalog
      \<lparr>dec_scene = ''storm'', dec_music = Some (musicOf ''dragon_roar'' ''change''),
       dec_sfx = Some [sfxOf ''dragon_roar'', sfxOf ''dog_bark'']\<rparr>) = None"
proof -
  let ?d = "\<lparr>dec_scene = ''storm'', dec_music = Some (musicOf ''dragon_roar'' ''change''),
       dec_sfx = Some [sfxOf ''dragon_roar'', sfxOf ''dog_bark'']\<rparr>"
  have unknown: "\<not> inCatalog (soundCatalog demoGame) ''dragon_roar''" by code_simp
  have m: "md_id (musicOf ''dragon_roar'' ''change'') = ''dragon_roar''" by (simp add: musicOf_def)
  have s: "sd_id (sfxOf ''dragon_roar'') = ''dragon_roar''" by (simp add: sfxOf_def)
  note inst = C9_unknown_ids_dropped [of demoGame "musicOf ''dragon_roar'' ''change''" "envAt 7"
      "sfxOf ''dragon_roar''" demoCatalog ?d]
  from inst unknown m s
  have a: "updateMusicById (envAt 7) (musicOf ''dragon_roar'' ''change'') demoGame = demoGame"
    and b: "playSoundEffectById (envAt 7) (sfxOf ''dragon_roar'') demoGame = (demoGame, False)"
    by simp_all
  have c: "dec_sfx (validateDecision demoCatalog ?d) = Some [sfxOf ''dog_bark'']" by code_simp
  have d: "dec_music (validateDecision demoCatalog ?d) = None" by code_simp
  from unknown a b c d show ?thesis by blast
qed

end
